theory Spec2Isabelle
  imports Complex_Main
begin

section \<open>Values and library functions used by \<open>InterVA5.run\<close>\<close>

text \<open>
  The embedding follows \<open>src/interva/interva5.py\<close>. Floating-point numbers are
  idealised as \<open>real\<close>: sums, products and quotients are exact, and a floating NaN
  has no counterpart among the numbers (a missing cell is the constructor \<open>NaN\<close>
  of \<open>cell\<close>).

  A cell of a pandas/numpy object array is a string, a number or missing.
\<close>

datatype cell = Str string | Num real | NaN

text \<open>The Python exceptions that the modelled code can raise.\<close>

datatype error = IOError string | TypeError | ValueError | IndexError | OverflowError
  | CsvError

text \<open>
  Python values that are assigned to the result variables of one record: \<open>None\<close>,
  a string, an integer, and the empty list \<open>[]\<close> (the three initial elements of
  \<open>top3\<close>).
\<close>

datatype pyval = PNone | PStr string | PInt int | PEmptyList

text \<open>
  \<open>round\<close> of Python and numpy with no second argument: to the nearest integer,
  a tie to the even one.
\<close>

definition py_round :: "real \<Rightarrow> int" where
  "py_round x =
     (let f = \<lfloor>x\<rfloor>; d = x - of_int f
      in if d < 1 / 2 then f
         else if 1 / 2 < d then f + 1
         else if even f then f else f + 1)"

text \<open>
  \<open>numpy.amax\<close> and \<open>numpy.argmax\<close> of a one-dimensional array: the largest
  element, and the index of its first occurrence. Both raise \<open>ValueError\<close> on an
  empty array; every caller below tests for the empty array first.
\<close>

fun amax :: "real list \<Rightarrow> real" where
  "amax [] = 0"
| "amax (x # xs) = foldl max x xs"

definition argmax :: "real list \<Rightarrow> nat" where
  "argmax xs = length (takeWhile (\<lambda>x. x \<noteq> amax xs) xs)"

text \<open>\<open>numpy.delete(a, i)\<close>: a new array without the element at index \<open>i\<close>.\<close>

definition delete :: "real list \<Rightarrow> nat \<Rightarrow> real list" where
  "delete a i = take i a @ drop (Suc i) a"

text \<open>
  Reading a name by position from a slice of the cause-name series
  (\<open>prob_temp_names[max1_loc]\<close>, \<open>prob_C_names[...]\<close>). The series comes from
  \<open>interva.data.causetext.CAUSETEXTV5\<close>, which is not part of the sources; it is a
  parameter \<open>prob_names\<close> of the model, a list of names read by position.
\<close>

definition name_at :: "string list \<Rightarrow> nat \<Rightarrow> error + string" where
  "name_at ns i = (if i < length ns then Inr (ns ! i) else Inl IndexError)"

text \<open>The slice \<open>a[lo:hi]\<close> of a list or array.\<close>

definition slice :: "nat \<Rightarrow> nat \<Rightarrow> 'a list \<Rightarrow> 'a list" where
  "slice lo hi a = take (hi - lo) (drop lo a)"

section \<open>The multiplicative update (lines 341--359)\<close>

text \<open>
  \<open>to_numeric\<close> of one cell of the probability table. A string that is left in the
  table after the grades have been replaced does not parse.
\<close>

fun to_numeric :: "cell \<Rightarrow> error + real" where
  "to_numeric (Num r) = Inr r"
| "to_numeric (Str s) = Inl ValueError"
| "to_numeric NaN = Inl ValueError"

fun to_numeric_list :: "cell list \<Rightarrow> error + real list" where
  "to_numeric_list [] = Inr []"
| "to_numeric_list (c # cs) =
     (case to_numeric c of
        Inl e \<Rightarrow> Inl e
      | Inr r \<Rightarrow> (case to_numeric_list cs of Inl e \<Rightarrow> Inl e | Inr rs \<Rightarrow> Inr (r # rs)))"

text \<open>
  \<open>temp_sum = sum(prob[lo:hi]); if temp_sum > 0: prob[lo:hi] = prob[lo:hi] / temp_sum\<close>
\<close>

definition normalize_group :: "nat \<Rightarrow> nat \<Rightarrow> real list \<Rightarrow> real list" where
  "normalize_group lo hi prob =
     (let temp_sum = sum_list (slice lo hi prob)
      in if temp_sum > 0
         then take lo prob @ map (\<lambda>x. x / temp_sum) (slice lo hi prob) @ drop hi prob
         else prob)"

text \<open>
  The body of \<open>for temp_sub in temp\<close>: the inner loop over \<open>j\<close> multiplies
  \<open>prob[j-17]\<close> by the cell \<open>probbaseV5[temp_sub + 1, j]\<close> for \<open>j = 17, ..., D-1\<close>,
  where \<open>D\<close> is the number of columns of the table (a rectangular array) and
  \<open>prob\<close> has \<open>D - 17\<close> elements; then the three groups are normalised in turn.
\<close>

definition update_prob ::
  "cell list list \<Rightarrow> nat \<Rightarrow> nat \<Rightarrow> real list \<Rightarrow> error + real list" where
  "update_prob probbaseV5 D temp_sub prob =
     (if length probbaseV5 \<le> temp_sub + 1 then Inl IndexError
      else case to_numeric_list (slice 17 D (probbaseV5 ! (temp_sub + 1))) of
        Inl e \<Rightarrow> Inl e
      | Inr row \<Rightarrow>
          Inr (normalize_group 64 70 (normalize_group 3 64 (normalize_group 0 3
                 (map2 (\<lambda>p r. p * r) prob row)))))"

fun update_loop ::
  "cell list list \<Rightarrow> nat \<Rightarrow> nat list \<Rightarrow> real list \<Rightarrow> error + real list" where
  "update_loop probbaseV5 D [] prob = Inr prob"
| "update_loop probbaseV5 D (temp_sub # temp) prob =
     (case update_prob probbaseV5 D temp_sub prob of
        Inl e \<Rightarrow> Inl e
      | Inr prob' \<Rightarrow> update_loop probbaseV5 D temp prob')"

text \<open>
  \<open>temp = new_input[1:input_len][new_input[1:input_len] == 1]\<close>: indexing an array
  with a boolean mask gives the elements at which the mask holds, here the entries of
  \<open>new_input[1:]\<close> that are equal to 1.
\<close>

definition temp_of :: "nat list \<Rightarrow> nat \<Rightarrow> nat list" where
  "temp_of new_input input_len = filter (\<lambda>v. v = 1) (slice 1 input_len new_input)"

definition infer ::
  "cell list list \<Rightarrow> nat \<Rightarrow> nat list \<Rightarrow> nat \<Rightarrow> real list \<Rightarrow> error + real list" where
  "infer probbaseV5 D new_input input_len prob =
     update_loop probbaseV5 D (temp_of new_input input_len) prob"

section \<open>Pregnancy status (lines 365--382)\<close>

text \<open>
  \<open>int(round(a / prob_A_sum * 100))\<close>. A numpy division by zero gives an infinity or
  a NaN, on which \<open>round\<close> raises.
\<close>

definition int_round_pct :: "real \<Rightarrow> real \<Rightarrow> error + int" where
  "int_round_pct a prob_A_sum =
     (if prob_A_sum = 0 then (if a = 0 then Inl ValueError else Inl OverflowError)
      else Inr (py_round (a / prob_A_sum * 100)))"

text \<open>
  The five \<open>if\<close> statements are run one after the other on the pair
  \<open>(preg_state, lik_preg)\<close>, which starts as \<open>(" ", " ")\<close>; a later assignment
  overwrites an earlier one.
\<close>

definition preg_state_lik :: "real list \<Rightarrow> bool \<Rightarrow> error + (string \<times> pyval)" where
  "preg_state_lik prob_A reproductiveAge =
     (if prob_A = [] then Inl ValueError
      else
        let prob_A_sum = sum_list prob_A;
            s0 = ('' '', PStr '' '');
            s1 = (if prob_A_sum = 0 \<or> \<not> reproductiveAge then (''n/a'', PStr '' '') else s0);
            s2 = (if amax prob_A < 0.1 \<and> reproductiveAge
                  then (''indeterminate'', PStr '' '') else s1);
            prob_A_max_loc = argmax prob_A
        in
          case (if prob_A_max_loc = 0 \<and> prob_A ! 0 \<ge> 0.1 \<and> reproductiveAge
                then (if length prob_A < 2 then Inl IndexError
                      else case int_round_pct (prob_A ! 1) prob_A_sum of
                             Inl e \<Rightarrow> Inl e
                           | Inr l \<Rightarrow> Inr (''Not pregnant or recently delivered'', PInt l))
                else Inr s2) of
            Inl e \<Rightarrow> Inl e
          | Inr s3 \<Rightarrow>
          case (if prob_A_max_loc = 1 \<and> prob_A ! 1 \<ge> 0.1 \<and> reproductiveAge
                then (case int_round_pct (prob_A ! 1) prob_A_sum of
                        Inl e \<Rightarrow> Inl e
                      | Inr l \<Rightarrow> Inr (''Pregnancy ended within 6 weeks of death'', PInt l))
                else Inr s3) of
            Inl e \<Rightarrow> Inl e
          | Inr s4 \<Rightarrow>
               (if prob_A_max_loc = 2 \<and> prob_A ! 2 \<ge> 0.1 \<and> reproductiveAge
                then (case int_round_pct (prob_A ! 2) prob_A_sum of
                        Inl e \<Rightarrow> Inl e
                      | Inr l \<Rightarrow> Inr (''Pregnant at death'', PInt l))
                else Inr s4))"

section \<open>The three most likely causes (lines 385--419)\<close>

record top3_out =
  cause1 :: pyval
  lik1 :: pyval
  cause2 :: pyval
  lik2 :: pyval
  cause3 :: pyval
  lik3 :: pyval
  indet :: int

text \<open>
  \<open>float(x)\<close> for the elements of \<open>top3\<close>: an integer converts, the empty list and
  \<open>None\<close> raise \<open>TypeError\<close>, a string that is not a number raises \<open>ValueError\<close>.
\<close>

fun py_float :: "pyval \<Rightarrow> error + real" where
  "py_float (PInt n) = Inr (of_int n)"
| "py_float PEmptyList = Inl TypeError"
| "py_float PNone = Inl TypeError"
| "py_float (PStr s) = Inl ValueError"

text \<open>\<open>[float(x) if x != " " else 0 for x in top3]\<close>, from left to right.\<close>

fun top3_floats :: "pyval list \<Rightarrow> error + real list" where
  "top3_floats [] = Inr []"
| "top3_floats (x # xs) =
     (case (if x \<noteq> PStr '' '' then py_float x else Inr 0) of
        Inl e \<Rightarrow> Inl e
      | Inr y \<Rightarrow> (case top3_floats xs of Inl e \<Rightarrow> Inl e | Inr ys \<Rightarrow> Inr (y # ys)))"

text \<open>
  The body of \<open>if amax(prob_temp) >= 0.4\<close>. \<open>prob_temp_names.drop(...)\<close> returns a
  new series that the code does not keep, so \<open>prob_temp_names\<close> stays as it is while
  \<open>prob_temp\<close> shrinks. \<open>top3\<close> starts as the list of three empty lists
  \<open>[[], [], []]\<close>, and the three likelihoods are appended to it.
\<close>

definition top3_branch :: "string list \<Rightarrow> real list \<Rightarrow> error + top3_out" where
  "top3_branch prob_temp_names prob_B =
     (let prob_temp = prob_B;
          top3 = [PEmptyList, PEmptyList, PEmptyList];
          max1_loc = argmax prob_temp;
          l1 = PInt (py_round (amax prob_temp * 100))
      in case name_at prob_temp_names max1_loc of Inl e \<Rightarrow> Inl e | Inr n1 \<Rightarrow>
      let c1 = PStr n1;
          prob_temp = delete prob_temp max1_loc;
          top3 = top3 @ [l1]
      in if prob_temp = [] then Inl ValueError else
      let max2_loc = argmax prob_temp;
          l2 = PInt (py_round (amax prob_temp * 100))
      in case name_at prob_temp_names max2_loc of Inl e \<Rightarrow> Inl e | Inr n2 \<Rightarrow>
      let (l2, c2) = (if amax prob_temp < 0.5 * amax prob_B
                      then (PStr '' '', PStr '' '') else (l2, PStr n2));
          prob_temp = delete prob_temp max2_loc;
          top3 = top3 @ [l2]
      in if prob_temp = [] then Inl ValueError else
      let max3_loc = argmax prob_temp;
          l3 = PInt (py_round (amax prob_temp * 100))
      in case name_at prob_temp_names max3_loc of Inl e \<Rightarrow> Inl e | Inr n3 \<Rightarrow>
      let (l3, c3) = (if amax prob_temp < 0.5 * amax prob_B
                      then (PStr '' '', PStr '' '') else (l3, PStr n3));
          top3 = top3 @ [l3]
      in case top3_floats top3 of Inl e \<Rightarrow> Inl e | Inr fs \<Rightarrow>
         Inr \<lparr>cause1 = c1, lik1 = l1, cause2 = c2, lik2 = l2, cause3 = c3, lik3 = l3,
              indet = py_round (100 - sum_list fs)\<rparr>)"

definition top3_causes :: "string list \<Rightarrow> real list \<Rightarrow> error + top3_out" where
  "top3_causes prob_temp_names prob_B =
     (if prob_B = [] then Inl ValueError
      else
        let r0 = \<lparr>cause1 = PNone, lik1 = PNone, cause2 = PNone, lik2 = PNone,
                   cause3 = PNone, lik3 = PNone, indet = 0\<rparr>;
            r1 = (if amax prob_B < 0.4
                  then \<lparr>cause1 = PStr '' '', lik1 = PStr '' '', cause2 = PStr '' '',
                        lik2 = PStr '' '', cause3 = PStr '' '', lik3 = PStr '' '',
                        indet = 100\<rparr>
                  else r0)
        in if amax prob_B \<ge> 0.4 then top3_branch prob_temp_names prob_B else Inr r1)"

section \<open>Circumstances of mortality category (lines 421--433)\<close>

text \<open>
  \<open>prob_c_max\<close> is read before \<open>prob_C\<close> is divided by its sum; the divided slice is
  used for \<open>argmax\<close> only.
\<close>

definition comcat_comnum :: "string list \<Rightarrow> real list \<Rightarrow> error + (string \<times> pyval)" where
  "comcat_comnum prob_C_names prob_C =
     (if prob_C = [] then Inl ValueError
      else
        let prob_c_max = amax prob_C;
            prob_C = (if sum_list prob_C > 0
                      then map (\<lambda>x. x / sum_list prob_C) prob_C else prob_C)
        in if prob_c_max < 0.5 then Inr (''Multiple'', PStr '' '')
           else case name_at prob_C_names (argmax prob_C) of
                  Inl e \<Rightarrow> Inl e
                | Inr n \<Rightarrow> Inr (n, PInt (py_round (prob_c_max * 100))))"

section \<open>The probability table and the prior (lines 206--245)\<close>

text \<open>
  Lines 207--222 replace the grades in the columns from 17 on by numbers, one
  assignment after the other; a replaced cell is a number and matches no later grade.
\<close>

definition grade :: "cell \<Rightarrow> cell" where
  "grade c =
     (if c = Str ''I'' then Num 1
      else if c = Str ''A+'' then Num 0.8
      else if c = Str ''A'' then Num 0.5
      else if c = Str ''A-'' then Num 0.2
      else if c = Str ''B+'' then Num 0.1
      else if c = Str ''B'' then Num 0.05
      else if c = Str ''B-'' then Num 0.02
      else if c = Str ''C+'' then Num 0.01
      else if c = Str ''C'' then Num 0.005
      else if c = Str ''C-'' then Num 0.002
      else if c = Str ''D+'' then Num 0.001
      else if c = Str ''D'' then Num 0.0005
      else if c = Str ''D-'' then Num 0.0001
      else if c = Str ''E'' then Num 0.00001
      else if c = Str ''N'' then Num 0
      else if c = Str [] then Num 0
      else c)"

definition replace_grades :: "cell list list \<Rightarrow> cell list list" where
  "replace_grades probbaseV5 = map (\<lambda>row. take 17 row @ map grade (drop 17 row)) probbaseV5"

text \<open>\<open>probbaseV5[0, 0:17] = 0\<close>\<close>

fun zero_row0 :: "cell list list \<Rightarrow> cell list list" where
  "zero_row0 [] = []"
| "zero_row0 (row # rows) = (replicate (min 17 (length row)) (Num 0) @ drop 17 row) # rows"

text \<open>
  \<open>str.lower\<close>, on ASCII letters.
\<close>

definition lower_char :: "char \<Rightarrow> char" where
  "lower_char c =
     (case map_of (zip ''ABCDEFGHIJKLMNOPQRSTUVWXYZ'' ''abcdefghijklmnopqrstuvwxyz'') c of
        None \<Rightarrow> c
      | Some d \<Rightarrow> d)"

definition lower :: "string \<Rightarrow> string" where
  "lower s = map lower_char s"

text \<open>Lines 231--236 and 237--245, on the lower-cased settings.\<close>

definition set_hiv :: "string \<Rightarrow> real list \<Rightarrow> real list" where
  "set_hiv hiv Sys_Prior =
     (let p1 = (if hiv = ''h'' then Sys_Prior[22 := 0.05] else Sys_Prior);
          p2 = (if hiv = ''l'' then p1[22 := 0.005] else p1);
          p3 = (if hiv = ''v'' then p2[22 := 0.00001] else p2)
      in p3)"

definition set_malaria :: "string \<Rightarrow> real list \<Rightarrow> real list" where
  "set_malaria malaria Sys_Prior =
     (let p1 = (if malaria = ''h'' then Sys_Prior[24 := 0.05, 44 := 0.05] else Sys_Prior);
          p2 = (if malaria = ''l'' then p1[24 := 0.005, 44 := 0.00001] else p1);
          p3 = (if malaria = ''v'' then p2[24 := 0.00001, 44 := 0.00001] else p2)
      in p3)"

text \<open>\<open>x not in xs\<close>\<close>

definition not_in :: "'a \<Rightarrow> 'a list \<Rightarrow> bool" where
  "not_in x xs = (x \<notin> set xs)"

text \<open>
  Lines 224--245: \<open>Sys_Prior = to_numeric(probbaseV5[0, :])\<close>, the test of the two
  settings, and the assignments, which raise \<open>IndexError\<close> on a vector with no
  index 22, 24 or 44.
\<close>

definition build_Sys_Prior :: "cell list \<Rightarrow> string \<Rightarrow> string \<Rightarrow> error + real list" where
  "build_Sys_Prior row0 hiv malaria =
     (case to_numeric_list row0 of
        Inl e \<Rightarrow> Inl e
      | Inr Sys_Prior \<Rightarrow>
          if not_in hiv [''h'', ''l'', ''v''] \<or> not_in malaria [''h'', ''l'', ''v'']
          then Inl (IOError
            ''error: the HIV and Malaria indicator should be one of the three: 'h', 'l', 'v' '')
          else if length Sys_Prior \<le> 44 then Inl IndexError
          else Inr (set_malaria malaria (set_hiv hiv Sys_Prior)))"

section \<open>One record (lines 279--439)\<close>

text \<open>
  Lines 281--291: \<open>"n"\<close>, \<open>"N"\<close> become \<open>"0"\<close> and \<open>"y"\<close>, \<open>"Y"\<close> become \<open>"1"\<close>; every
  cell that is then neither the string \<open>"0"\<close> nor the string \<open>"1"\<close> becomes NaN; the
  two strings become the numbers 0 and 1. \<open>None\<close> stands for NaN.
\<close>

fun canon :: "cell \<Rightarrow> int option" where
  "canon (Str s) =
     (if s = ''n'' \<or> s = ''N'' \<or> s = ''0'' then Some 0
      else if s = ''y'' \<or> s = ''Y'' \<or> s = ''1'' then Some 1
      else None)"
| "canon (Num r) = None"
| "canon NaN = None"

definition nansum :: "int option list \<Rightarrow> int" where
  "nansum xs = sum_list (map (\<lambda>x. case x of None \<Rightarrow> 0 | Some v \<Rightarrow> v) xs)"

text \<open>Lines 322--324, from column 5 of the table.\<close>

definition subst_vector :: "cell list list \<Rightarrow> int option list" where
  "subst_vector probbaseV5 =
     map (\<lambda>row. if row ! 5 = Str ''Y'' then Some 1
                else if row ! 5 = Str ''N'' then Some 0 else None) probbaseV5"

text \<open>Lines 326--330.\<close>

definition new_input_of :: "int option list \<Rightarrow> int option list \<Rightarrow> nat \<Rightarrow> nat list" where
  "new_input_of input_current subst S =
     map (\<lambda>y. if y = 0 then 0
              else case input_current ! y of
                     None \<Rightarrow> 0
                   | Some v \<Rightarrow> if Some v = subst ! y then 1 else 0) [0..<S]"

text \<open>Lines 332--334.\<close>

definition post_subst :: "int option list \<Rightarrow> int list" where
  "post_subst input_current =
     (map (\<lambda>x. case x of None \<Rightarrow> 0 | Some v \<Rightarrow> if v = 0 then 1 else v) input_current)
       [0 := 0]"

text \<open>Lines 335--340.\<close>

definition reproductiveAge_of :: "int list \<Rightarrow> bool" where
  "reproductiveAge_of input_current =
     (input_current ! 4 = 1 \<and>
      (input_current ! 16 = 1 \<or> list_ex (\<lambda>v. v \<noteq> 0) (slice 17 19 input_current)))"

text \<open>
  What is fixed before the loop over the records: the table with the grades replaced,
  its numbers of rows and columns \<open>S\<close> and \<open>D\<close>, the cause names, the two settings,
  \<open>write\<close> and \<open>output\<close>. \<open>datacheck5\<close> belongs to the package \<open>vacheck\<close>; it is
  a parameter that maps the identifier and the record to the checked record
  (\<open>tmp["output"]\<close>).
\<close>

record env =
  e_probbaseV5 :: "cell list list"
  e_S :: nat
  e_D :: nat
  e_prob_names :: "string list"
  e_datacheck5 :: "cell \<Rightarrow> int option list \<Rightarrow> int option list"
  e_hiv :: string
  e_malaria :: string
  e_write :: bool
  e_output :: string

text \<open>The list that \<open>va5\<close> returns for one record (lines 104--108).\<close>

record va5_row =
  ID :: cell
  MALPREV :: string
  HIVPREV :: string
  PREGSTAT :: string
  PREGLIK :: pyval
  CAUSE1 :: pyval
  LIK1 :: pyval
  CAUSE2 :: pyval
  LIK2 :: pyval
  CAUSE3 :: pyval
  LIK3 :: pyval
  INDET :: int
  COMCAT :: string
  COMNUM :: pyval
  WHOLEPROB :: "real list"

text \<open>
  What the loop changes from one record to the next. \<open>prob = Sys_Prior[17:D]\<close> is a
  view of the array \<open>Sys_Prior\<close>, not a copy: every assignment to \<open>prob[...]\<close> in
  lines 346--359 is an assignment to \<open>Sys_Prior[17:D]\<close>, so \<open>Sys_Prior\<close> is part of
  the state. \<open>VA_result\<close> has one entry per record, \<open>None\<close> for the initial \<open>[]\<close>.
  \<open>errors\<close> is \<open>None\<close> throughout: its only assignments are those of lines 296,
  301 and 306, whose right-hand side \<open>errors + index_current + ...\<close> raises
  \<open>TypeError\<close> on \<open>None\<close>. Opening files and writing log entries are not
  modelled.
\<close>

record loop_state =
  Sys_Prior :: "real list"
  ID_list :: "cell list"
  VA_result :: "va5_row option list"

datatype step = Excluded | Accepted loop_state

text \<open>
  Line 436, \<open>combined_prob = Series(prob, index=prob_names)\<close>: a series built from
  an array keeps the buffer of the array, here that of \<open>Sys_Prior[17:D]\<close>. The rows
  stored for the records before share that buffer too, so the values that a record
  leaves in \<open>prob\<close> are from then on the \<open>WHOLEPROB\<close> of every row stored so far.
\<close>

definition write_through :: "real list \<Rightarrow> va5_row option list \<Rightarrow> va5_row option list" where
  "write_through prob rows = map (map_option (\<lambda>r. r\<lparr>WHOLEPROB := prob\<rparr>)) rows"

text \<open>
  \<open>save_va5\<close> (lines 110--116) and \<open>save_va5_prob\<close> (lines 118--126) return at once
  without \<open>write\<close>. With \<open>write\<close> both call \<open>delete(x, 14)\<close> on the list that
  \<open>va5\<close> returned, which NumPy first turns into an array; the list holds 14 scalars
  and a series of 70 values, and for such a list the conversion raises \<open>ValueError\<close>
  (NumPy 1.24 and later; before that the conversion gave an array of objects, and
  \<open>savetxt\<close> with the format \<open>%f\<close> raised \<open>TypeError\<close> on the identifier).
\<close>

definition save_va5 :: "va5_row \<Rightarrow> bool \<Rightarrow> error + unit" where
  "save_va5 x w = (if w then Inl ValueError else Inr ())"

definition save_va5_prob :: "va5_row \<Rightarrow> bool \<Rightarrow> error + unit" where
  "save_va5_prob x w = (if w then Inl ValueError else Inr ())"

text \<open>
  Lines 341--443 for a record that passed the three tests, given the checked record.
  The new row holds the values of \<open>prob\<close>, and so do the rows stored before.
\<close>

definition classify :: "env \<Rightarrow> nat \<Rightarrow> cell \<Rightarrow> int option list \<Rightarrow> loop_state \<Rightarrow> error + loop_state" where
  "classify E i index_current checked st =
     (if length checked < e_S E then Inl IndexError
      else
        let new_input = new_input_of checked (subst_vector (e_probbaseV5 E)) (e_S E);
            input_current = post_subst checked;
            reproductiveAge = reproductiveAge_of input_current;
            input_len = length input_current
        in case infer (e_probbaseV5 E) (e_D E) new_input input_len
                  (slice 17 (e_D E) (Sys_Prior st)) of
             Inl e \<Rightarrow> Inl e
           | Inr prob \<Rightarrow>
        let st1 = st\<lparr>Sys_Prior := take 17 (Sys_Prior st) @ prob,
                    VA_result := write_through prob (VA_result st)\<rparr>
        in case preg_state_lik (slice 0 3 prob) reproductiveAge of
             Inl e \<Rightarrow> Inl e
           | Inr (preg_state, lik_preg) \<Rightarrow>
           case top3_causes (slice 3 64 (e_prob_names E)) (slice 3 64 prob) of
             Inl e \<Rightarrow> Inl e
           | Inr t \<Rightarrow>
           case comcat_comnum (slice 64 70 (e_prob_names E)) (slice 64 70 prob) of
             Inl e \<Rightarrow> Inl e
           | Inr (comcat, comnum) \<Rightarrow>
        let row = \<lparr>ID = index_current, MALPREV = e_malaria E, HIVPREV = e_hiv E,
                   PREGSTAT = preg_state, PREGLIK = lik_preg,
                   CAUSE1 = cause1 t, LIK1 = lik1 t, CAUSE2 = cause2 t,
                   LIK2 = lik2 t, CAUSE3 = cause3 t, LIK3 = lik3 t,
                   INDET = indet t, COMCAT = comcat, COMNUM = comnum,
                   WHOLEPROB = prob\<rparr>;
            st2 = st1\<lparr>ID_list := ID_list st1 @ [index_current],
                      VA_result := (VA_result st1)[i := Some row]\<rparr>
        in case (if e_output E = ''classic'' then save_va5 row (e_write E) else Inr ()) of
             Inl e \<Rightarrow> Inl e
           | Inr u \<Rightarrow>
           case (if e_output E = ''extended'' then save_va5_prob row (e_write E)
                 else Inr ()) of
             Inl e \<Rightarrow> Inl e
           | Inr u \<Rightarrow> Inr st2)"

text \<open>
  Lines 279--308 and 310--318 for the record \<open>i\<close>: the identifier is the first cell of
  the row as given; the row is canonicalised, index 0 is set to 0, and the three
  tests run in turn. A record that fails one is skipped by \<open>continue\<close> when
  \<open>write\<close> is false; when \<open>write\<close> is true the update of \<open>errors\<close> raises.
\<close>

definition process_record :: "env \<Rightarrow> nat \<Rightarrow> cell list \<Rightarrow> loop_state \<Rightarrow> error + step" where
  "process_record E i row st =
     (if row = [] then Inl IndexError
      else
        let index_current = row ! 0;
            input_current = (map canon row)[0 := Some 0]
        in if nansum (slice 5 12 input_current) < 1
           then (if e_write E then Inl TypeError else Inr Excluded)
           else if nansum (slice 3 5 input_current) < 1
           then (if e_write E then Inl TypeError else Inr Excluded)
           else if nansum (slice 20 328 input_current) < 1
           then (if e_write E then Inl TypeError else Inr Excluded)
           else case classify E i index_current
                       (e_datacheck5 E index_current input_current) st of
                  Inl e \<Rightarrow> Inl e
                | Inr st' \<Rightarrow> Inr (Accepted st'))"

text \<open>\<open>for i in range(N)\<close>, on the rows from \<open>i\<close> on.\<close>

fun record_loop :: "env \<Rightarrow> nat \<Rightarrow> cell list list \<Rightarrow> loop_state \<Rightarrow> error + loop_state" where
  "record_loop E i [] st = Inr st"
| "record_loop E i (row # rows) st =
     (case process_record E i row st of
        Inl e \<Rightarrow> Inl e
      | Inr Excluded \<Rightarrow> record_loop E (Suc i) rows st
      | Inr (Accepted st') \<Rightarrow> record_loop E (Suc i) rows st')"

section \<open>The whole of \<open>run\<close>\<close>

text \<open>
  The arguments of \<open>InterVA5\<close> that the modelled part of \<open>run\<close> reads. \<open>va_input\<close> is
  a data frame: its column names and its rows, each row with one cell per column.
\<close>

record config =
  va_input_columns :: "string list"
  va_input_rows :: "cell list list"
  c_hiv :: string
  c_malaria :: string
  c_write :: bool
  c_directory :: "string option"
  c_output :: string
  c_append :: bool
  c_sci :: "cell list list option"

record run_out =
  out_ID :: "cell list"
  out_VA5 :: "va5_row option list"
  out_Malaria :: string
  out_HIV :: string

text \<open>Lines 456--464: the positions of the missing identifiers in \<open>ID_list\<close>.\<close>

definition isna :: "cell \<Rightarrow> bool" where
  "isna c = (c = NaN)"

definition nan_indices_of :: "cell list \<Rightarrow> nat list" where
  "nan_indices_of ids = filter (\<lambda>k. isna (ids ! k)) [0..<length ids]"

text \<open>\<open>drop(nan_indices)\<close>: the entries whose position is not listed.\<close>

definition drop_indices :: "nat list \<Rightarrow> 'a list \<Rightarrow> 'a list" where
  "drop_indices ks xs = map snd (filter (\<lambda>(k, x). k \<notin> set ks) (zip [0..<length xs] xs))"

text \<open>
  Lines 445--477. With \<open>write\<close> the argument of \<open>info\<close> adds the list \<open>first_pass\<close>
  to a string, which raises \<open>TypeError\<close>. \<open>DataFrame(VA_result)\<close> has a row for
  every record, the skipped ones included (their row has no value in any column),
  and no column at all when every row is \<open>[]\<close>; naming its 15 columns then raises
  \<open>ValueError\<close>. The rows dropped from \<open>VA_result\<close> are those at the positions that
  the missing identifiers have in \<open>ID_list\<close>.
\<close>

definition assemble :: "env \<Rightarrow> loop_state \<Rightarrow> error + run_out" where
  "assemble E st =
     (if e_write E then Inl TypeError
      else
        let nan_indices = nan_indices_of (ID_list st)
        in if list_all (\<lambda>r. r = None) (VA_result st) then Inl ValueError
           else Inr \<lparr>out_ID = drop_indices nan_indices (ID_list st),
                     out_VA5 = drop_indices nan_indices (VA_result st),
                     out_Malaria = e_malaria E, out_HIV = e_hiv E\<rparr>)"

text \<open>
  \<open>run\<close> (lines 128--477). The table that ships with the package
  (\<open>data/probbase.xls\<close>, read when \<open>sci\<close> is \<open>None\<close>), the cause names and
  \<open>datacheck5\<close> are not part of the sources and are parameters. Creating and
  changing the directory, printing, logging and the comparison of the column names
  with the standard ones (which only warns) are left out.

  Lines 249--258: with \<open>write\<close>, without \<open>append\<close> and with the output
  \<open>"extended"\<close>, \<open>header = header.append(...)\<close> makes \<open>header\<close> \<open>None\<close>, and
  \<open>writerow(header)\<close> raises \<open>csv.Error\<close>. With any other output no header is written.
\<close>

text \<open>
  Lines 146--151: \<open>validSCI\<close> holds for an array of 354 rows and 87 columns.
\<close>

definition validSCI :: "cell list list \<Rightarrow> bool" where
  "validSCI t = (length t = 354 \<and> list_all (\<lambda>row. length row = 87) t)"

definition run ::
  "cell list list \<Rightarrow> string list \<Rightarrow> (cell \<Rightarrow> int option list \<Rightarrow> int option list) \<Rightarrow>
   config \<Rightarrow> error + run_out" where
  "run probbase_xls causetext check c =
     (if c_directory c = None \<and> c_write c
      then Inl (IOError ''error: please provide a directory (required when write = True)'')
      else case (case c_sci c of
                   None \<Rightarrow> Inr probbase_xls
                 | Some t \<Rightarrow>
                     if \<not> validSCI t
                     then Inl (IOError ''Error: Invalid SCI (must be Pandas DataFrame or Numpy ndarray with 354 rows and 87 columns).'')
                     else Inr t) of
             Inl e \<Rightarrow> Inl e
           | Inr pb \<Rightarrow>
        if pb = [] \<or> length (pb ! 0) < 3 then Inl IndexError
        else if va_input_columns c = [] then Inl IndexError
        else if length (va_input_rows c) < 1 then Inl (IOError ''error: no data input'')
        else
          let N = length (va_input_rows c);
              S = length (va_input_columns c)
          in if S \<noteq> length pb
             then Inl (IOError ''error: invalid data input format. Number of values incorrect'')
             else if lower (va_input_columns c ! (S - 1)) \<noteq> ''i459o''
             then Inl (IOError ''error: the last variable should be 'i459o' '')
             else
               let pb = zero_row0 (replace_grades pb)
               in case build_Sys_Prior (pb ! 0) (lower (c_hiv c)) (lower (c_malaria c)) of
                    Inl e \<Rightarrow> Inl e
                  | Inr sp \<Rightarrow>
               if c_write c \<and> \<not> c_append c \<and> c_output c = ''extended''
               then Inl CsvError
               else
               let E = \<lparr>e_probbaseV5 = pb, e_S = S, e_D = length sp, e_prob_names = causetext,
                        e_datacheck5 = check, e_hiv = lower (c_hiv c),
                        e_malaria = lower (c_malaria c), e_write = c_write c,
                        e_output = c_output c\<rparr>
               in case record_loop E 0 (va_input_rows c)
                         \<lparr>Sys_Prior = sp, ID_list = [], VA_result = replicate N None\<rparr> of
                    Inl e \<Rightarrow> Inl e
                  | Inr st \<Rightarrow> assemble E st)"

section \<open>Predicates used in the statements\<close>

text \<open>
  The sum of the group \<open>prob[lo:hi]\<close> is 0 or 1.
\<close>

definition group_sum_ok :: "nat \<Rightarrow> nat \<Rightarrow> real list \<Rightarrow> bool" where
  "group_sum_ok lo hi p = (sum_list (slice lo hi p) = 0 \<or> sum_list (slice lo hi p) = 1)"

text \<open>The three groups A, B and C of the vector of 70 causes.\<close>

definition groups_ok :: "real list \<Rightarrow> bool" where
  "groups_ok p = (group_sum_ok 0 3 p \<and> group_sum_ok 3 64 p \<and> group_sum_ok 64 70 p)"

text \<open>
  A cell of the table that holds a number that is not negative, as every cell does
  that held one of the grades.
\<close>

definition prob_cell :: "cell \<Rightarrow> bool" where
  "prob_cell c = (case c of Num r \<Rightarrow> 0 \<le> r | Str s \<Rightarrow> False | NaN \<Rightarrow> False)"

text \<open>
  The row \<open>temp_sub + 1\<close> exists and its cells in the columns from 17 to \<open>D\<close> are
  such numbers.
\<close>

definition prob_row :: "cell list list \<Rightarrow> nat \<Rightarrow> nat \<Rightarrow> bool" where
  "prob_row probbaseV5 D temp_sub =
     (temp_sub + 1 < length probbaseV5
      \<and> list_all prob_cell (slice 17 D (probbaseV5 ! (temp_sub + 1))))"

section \<open>Concrete inputs\<close>

text \<open>
  Inputs of the size that \<open>run\<close> accepts (354 columns in the data, a table of
  354 rows and 87 columns), used to evaluate the functions above.
\<close>

definition cfg0 :: config where
  "cfg0 = \<lparr>va_input_columns = replicate 353 ''i'' @ [''i459o''], va_input_rows = [],
           c_hiv = ''h'', c_malaria = ''h'', c_write = True, c_directory = Some ''out'',
           c_output = ''classic'', c_append = False,
           c_sci = Some (replicate 354 (replicate 87 (Str ''N'')))\<rparr>"

definition prob_A_ex :: "real list" where
  "prob_A_ex = [0.6, 0.3, 0.1]"

definition prob_C_ex :: "real list" where
  "prob_C_ex = [0.6, 0.1, 0.1, 0.1, 0.05, 0.05]"

definition prob_C_cex :: "real list" where
  "prob_C_cex = [0.3, 0.1, 0, 0, 0, 0]"

definition prob_B_ex :: "real list" where
  "prob_B_ex = 0.6 # 0.4 # replicate 59 0"

text \<open>
  A table of 354 rows and 87 columns. Row 0 holds the grade \<open>B\<close> for every cause.
  In the other rows column 5 holds \<open>N\<close> and every grade is \<open>A\<close>, except in row 20,
  where column 5 holds \<open>Y\<close> and the grades give all of Group B to its first cause.
\<close>

definition row_P :: "cell list" where
  "row_P = replicate 17 (Str ''probbase v18'') @ replicate 70 (Str ''B'')"

definition row_A :: "cell list" where
  "row_A = replicate 5 (Num 0) @ [Str ''N''] @ replicate 11 (Num 0) @ replicate 70 (Str ''A'')"

definition row_Y :: "cell list" where
  "row_Y = replicate 5 (Num 0) @ [Str ''Y''] @ replicate 11 (Num 0) @ replicate 3 (Str ''A'')
            @ [Str ''I''] @ replicate 60 (Str ''N'') @ replicate 6 (Str ''A'')"

definition sci_ex :: "cell list list" where
  "sci_ex = [row_P] @ replicate 19 row_A @ [row_Y] @ replicate 333 row_A"

text \<open>The table after lines 207--223.\<close>

definition pb_ex :: "cell list list" where
  "pb_ex = zero_row0 (replace_grades sci_ex)"

text \<open>
  What is fixed before the loop for the table \<open>pb_ex\<close>: 354 symptoms, 87 columns,
  70 cause names, both settings \<open>h\<close>, the output \<open>"classic"\<close>, and a \<open>datacheck5\<close>
  that returns the record as given.
\<close>

definition E_ex :: "bool \<Rightarrow> env" where
  "E_ex w = \<lparr>e_probbaseV5 = pb_ex, e_S = 354, e_D = 87, e_prob_names = replicate 70 ''cause'',
            e_datacheck5 = (\<lambda>index_current input_current. input_current),
            e_hiv = ''h'', e_malaria = ''h'', e_write = w, e_output = ''classic''\<rparr>"

text \<open>
  The prior of \<open>pb_ex\<close> (grade \<open>B\<close> for every cause, the settings \<open>h\<close> write 0.05 again),
  and the vector after one update with row 2 of the table, in the three groups.
\<close>

definition prior_ex :: "real list" where
  "prior_ex = replicate 3 0.05 @ replicate 61 0.05 @ replicate 6 0.05"

definition post_ex :: "real list" where
  "post_ex = replicate 3 (1 / 3) @ replicate 61 (1 / 61) @ replicate 6 (1 / 6)"

text \<open>The vector after one update of \<open>prior_ex\<close> with row 20 of the table.\<close>

definition spec_post_ex :: "real list" where
  "spec_post_ex = replicate 3 (1 / 3) @ ([1] @ replicate 60 0) @ replicate 6 (1 / 6)"

text \<open>
  Three records of 354 cells. \<open>rec1\<close> has \<open>y\<close> for the sex indicator 3, the age
  indicator 5 and the symptom 20, whose substantive value in the table is \<open>Y\<close>: one
  informative symptom. \<open>recZ\<close> has \<open>y\<close> for the symptom 21 instead, whose substantive
  value is \<open>N\<close>: no informative symptom. \<open>rec0\<close> has no value but its identifier.
  \<open>ic1\<close> and \<open>icZ\<close> are \<open>rec1\<close> and \<open>recZ\<close> after lines 281--291,
  \<open>new_input_ex\<close> is the vector \<open>new_input\<close> of \<open>rec1\<close>.
\<close>

definition rec1 :: "cell list" where
  "rec1 = [Str ''d1''] @ replicate 2 NaN @ [Str ''y'', NaN, Str ''y''] @ replicate 14 NaN
           @ [Str ''y''] @ replicate 333 NaN"

definition recZ :: "cell list" where
  "recZ = [Str ''d2''] @ replicate 2 NaN @ [Str ''y'', NaN, Str ''y''] @ replicate 15 NaN
           @ [Str ''y''] @ replicate 332 NaN"

definition rec0 :: "cell list" where
  "rec0 = [Str ''d0''] @ replicate 353 NaN"

definition ic1 :: "int option list" where
  "ic1 = [Some 0] @ replicate 2 None @ [Some 1, None, Some 1] @ replicate 14 None
          @ [Some 1] @ replicate 333 None"

definition icZ :: "int option list" where
  "icZ = [Some 0] @ replicate 2 None @ [Some 1, None, Some 1] @ replicate 15 None
          @ [Some 1] @ replicate 332 None"

definition new_input_ex :: "nat list" where
  "new_input_ex = replicate 20 0 @ [1] @ replicate 333 0"

text \<open>
  The arguments of a run on given records with the table \<open>sci_ex\<close>, the state at the
  start of its loop, and the run itself.
\<close>

definition cfg_ex :: "bool \<Rightarrow> cell list list \<Rightarrow> config" where
  "cfg_ex w rows = \<lparr>va_input_columns = replicate 353 ''i'' @ [''i459o''],
       va_input_rows = rows, c_hiv = ''H'', c_malaria = ''h'', c_write = w,
       c_directory = Some ''out'', c_output = ''classic'', c_append = False,
       c_sci = Some sci_ex\<rparr>"

definition st0_ex :: "nat \<Rightarrow> loop_state" where
  "st0_ex N = \<lparr>Sys_Prior = replicate 17 0 @ prior_ex, ID_list = [],
              VA_result = replicate N None\<rparr>"

text \<open>The state of the loop of a run on two records after \<open>rec1\<close>, its first record.\<close>

definition st1_ex :: loop_state where
  "st1_ex = \<lparr>Sys_Prior = replicate 17 0 @ post_ex, ID_list = [Str ''d1''],
             VA_result = [Some \<lparr>ID = Str ''d1'', MALPREV = ''h'', HIVPREV = ''h'',
                PREGSTAT = ''n/a'', PREGLIK = PStr '' '',
                CAUSE1 = PStr '' '', LIK1 = PStr '' '', CAUSE2 = PStr '' '', LIK2 = PStr '' '',
                CAUSE3 = PStr '' '', LIK3 = PStr '' '', INDET = 100,
                COMCAT = ''Multiple'', COMNUM = PStr '' '', WHOLEPROB = post_ex\<rparr>, None]\<rparr>"

definition run_cfg_ex :: "bool \<Rightarrow> cell list list \<Rightarrow> error + run_out" where
  "run_cfg_ex w rows =
     run [] (replicate 70 ''cause'') (\<lambda>index_current input_current. input_current)
       (cfg_ex w rows)"

text \<open>
  The row that \<open>va5\<close> returns for a record that is not of reproductive age, whose
  largest value in Group B is below 0.4 and in Group C below 0.5.
\<close>

definition undetermined_row :: "env \<Rightarrow> cell \<Rightarrow> real list \<Rightarrow> va5_row" where
  "undetermined_row E index_current prob =
     \<lparr>ID = index_current, MALPREV = e_malaria E, HIVPREV = e_hiv E,
      PREGSTAT = ''n/a'', PREGLIK = PStr '' '',
      CAUSE1 = PStr '' '', LIK1 = PStr '' '', CAUSE2 = PStr '' '', LIK2 = PStr '' '',
      CAUSE3 = PStr '' '', LIK3 = PStr '' '', INDET = 100,
      COMCAT = ''Multiple'', COMNUM = PStr '' '', WHOLEPROB = prob\<rparr>"

section \<open>Auxiliary definitions\<close>

text \<open>A list divided by its sum if the sum is positive: \<open>normalize_group\<close> on a whole list.\<close>

definition normalize_list :: "real list \<Rightarrow> real list" where
  "normalize_list xs = (if 0 < sum_list xs then map (\<lambda>x. x / sum_list xs) xs else xs)"

text \<open>
  The circumstances of mortality category in the words of the specification, to compare
  with \<open>comcat_comnum\<close>: the slice is divided by its sum when the sum is positive, and
  the maximum that is tested and reported is that of the resulting slice.
\<close>

definition comcat_comnum_spec :: "string list \<Rightarrow> real list \<Rightarrow> error + (string \<times> pyval)" where
  "comcat_comnum_spec prob_C_names prob_C =
     (if prob_C = [] then Inl ValueError
      else
        let prob_C = (if sum_list prob_C > 0
                      then map (\<lambda>x. x / sum_list prob_C) prob_C else prob_C);
            prob_c_max = amax prob_C
        in if prob_c_max < 0.5 then Inr (''Multiple'', PStr '' '')
           else case name_at prob_C_names (argmax prob_C) of
                  Inl e \<Rightarrow> Inl e
                | Inr n \<Rightarrow> Inr (n, PInt (py_round (prob_c_max * 100))))"

text \<open>
  The inference step in the words of the specification, to compare with \<open>infer\<close>:
  the informative symptoms are the indices \<open>y \<ge> 1\<close> with \<open>new_input[y] = 1\<close>, and
  the vector is multiplied by row \<open>y\<close> of the table for each of them in turn
  (\<open>update_prob\<close> reads row \<open>temp_sub + 1\<close>).
\<close>

definition informative_rows :: "nat list \<Rightarrow> nat list" where
  "informative_rows new_input = filter (\<lambda>y. new_input ! y = 1) [1..<length new_input]"

definition infer_spec :: "cell list list \<Rightarrow> nat \<Rightarrow> nat list \<Rightarrow> real list \<Rightarrow> error + real list" where
  "infer_spec probbaseV5 D new_input prob =
     update_loop probbaseV5 D (map (\<lambda>y. y - 1) (informative_rows new_input)) prob"

section \<open>Properties of the library functions\<close>

lemma amax_Cons_Max: "amax (x # xs) = Max (set (x # xs))"
proof -
  have "(\<lambda>a s. max s a) = (max :: real \<Rightarrow> real \<Rightarrow> real)"
    by (intro ext) (rule max.commute)
  then have "foldl max x xs = fold max xs x"
    by (simp add: foldl_conv_fold)
  also have "\<dots> = Max (set (x # xs))"
    by (rule Max.set_eq_fold [symmetric])
  finally show ?thesis by simp
qed

lemma amax_in_set: "xs \<noteq> [] \<Longrightarrow> amax xs \<in> set xs"
proof (cases xs)
  case Nil
  assume "xs \<noteq> []"
  with Nil show ?thesis by simp
next
  case (Cons y ys)
  have "Max (set (y # ys)) \<in> set (y # ys)" by (rule Max_in) simp_all
  with Cons show ?thesis by (simp only: amax_Cons_Max)
qed

lemma amax_ge: "x \<in> set xs \<Longrightarrow> x \<le> amax xs"
proof (cases xs)
  case Nil
  assume "x \<in> set xs"
  with Nil show ?thesis by simp
next
  case (Cons y ys)
  assume "x \<in> set xs"
  with Cons have "x \<le> Max (set (y # ys))" by (intro Max_ge) simp_all
  with Cons show ?thesis by (simp only: amax_Cons_Max)
qed

lemma takeWhile_stops: "\<exists>x\<in>set xs. \<not> P x \<Longrightarrow> length (takeWhile P xs) < length xs"
  by (induction xs) auto

lemma argmax_less: "xs \<noteq> [] \<Longrightarrow> argmax xs < length xs"
  unfolding argmax_def using amax_in_set [of xs]
  by (intro takeWhile_stops) auto

lemma nth_argmax: "xs \<noteq> [] \<Longrightarrow> xs ! argmax xs = amax xs"
  using argmax_less [of xs] nth_length_takeWhile [of "\<lambda>x. x \<noteq> amax xs" xs]
  by (simp add: argmax_def)

section \<open>The prior (claim C9)\<close>

text \<open>
  C9, as amended. The HIV setting overwrites one index of \<open>Sys_Prior\<close>, 22, and the
  malaria setting two, 24 and 44; every other entry is left as it is. Each overwritten
  index has one constant per level. At the indices 22 and 24 the constant decreases
  strictly from high to low to very low (0.05, 0.005, 0.00001); at index 44 it decreases
  strictly from high to low and is the same for low and very low (0.05, 0.00001,
  0.00001).
\<close>

theorem prior_constants:
  assumes "44 < length sp"
  shows "(\<forall>lvl i. i \<noteq> 22 \<longrightarrow> set_hiv lvl sp ! i = sp ! i)
       \<and> (\<forall>lvl i. i \<noteq> 24 \<longrightarrow> i \<noteq> 44 \<longrightarrow> set_malaria lvl sp ! i = sp ! i)
       \<and> set_hiv ''h'' sp ! 22 = 0.05 \<and> set_hiv ''l'' sp ! 22 = 0.005
       \<and> set_hiv ''v'' sp ! 22 = 0.00001
       \<and> set_malaria ''h'' sp ! 24 = 0.05 \<and> set_malaria ''l'' sp ! 24 = 0.005
       \<and> set_malaria ''v'' sp ! 24 = 0.00001
       \<and> set_malaria ''h'' sp ! 44 = 0.05 \<and> set_malaria ''l'' sp ! 44 = 0.00001
       \<and> set_malaria ''v'' sp ! 44 = 0.00001
       \<and> set_hiv ''v'' sp ! 22 < set_hiv ''l'' sp ! 22
       \<and> set_hiv ''l'' sp ! 22 < set_hiv ''h'' sp ! 22
       \<and> set_malaria ''v'' sp ! 24 < set_malaria ''l'' sp ! 24
       \<and> set_malaria ''l'' sp ! 24 < set_malaria ''h'' sp ! 24
       \<and> set_malaria ''v'' sp ! 44 = set_malaria ''l'' sp ! 44
       \<and> set_malaria ''l'' sp ! 44 < set_malaria ''h'' sp ! 44"
  using assms by (simp add: set_hiv_def set_malaria_def)

theorem prior_constants_witness:
  "44 < length (replicate 87 (1::real))
   \<and> set_hiv ''l'' (replicate 87 1) ! 22 = 0.005
   \<and> set_hiv ''l'' (replicate 87 1) ! 24 = 1
   \<and> set_malaria ''l'' (replicate 87 1) ! 22 = 1
   \<and> set_malaria ''v'' (replicate 87 1) ! 44 = set_malaria ''l'' (replicate 87 1) ! 44"
  using prior_constants [of "replicate 87 1"] by simp

text \<open>
  The claim as stated fails: at index 44 the constant for the level very low is not
  below the one for low, and the HIV setting changes index 22 only.
\<close>

theorem prior_constants_counterexample:
  "\<not> set_malaria ''v'' (replicate 87 0) ! 44 < set_malaria ''l'' (replicate 87 0) ! 44
   \<and> set_hiv ''h'' (replicate 87 0) = (replicate 87 0)[22 := 0.05]"
  by (simp add: set_hiv_def set_malaria_def)

section \<open>No record in the input (claim C10)\<close>

lemma validSCI_row0: "validSCI t \<Longrightarrow> t \<noteq> [] \<and> length (t ! 0) = 87"
  by (cases t) (auto simp: validSCI_def)

text \<open>
  C10. On a data frame with no row \<open>run\<close> returns an error and no result, whatever the
  other arguments are. The error is \<open>IOError("error: no data input")\<close> when the
  tests that come before line 181 pass: a directory is given if \<open>write\<close> is set, the
  table given as \<open>sci\<close> has 354 rows and 87 columns (or the table of the package has
  the cell of its version), and the data frame has a column.
\<close>

theorem run_no_data:
  assumes "va_input_rows c = []"
  shows "(\<exists>e. run probbase_xls causetext check c = Inl e)
       \<and> ((c_write c \<longrightarrow> c_directory c \<noteq> None)
            \<and> (case c_sci c of
                  None \<Rightarrow> probbase_xls \<noteq> [] \<and> 3 \<le> length (probbase_xls ! 0)
                | Some t \<Rightarrow> validSCI t)
            \<and> va_input_columns c \<noteq> []
          \<longrightarrow> run probbase_xls causetext check c = Inl (IOError ''error: no data input''))"
proof (intro conjI impI)
  show "\<exists>e. run probbase_xls causetext check c = Inl e"
    using assms by (auto simp: run_def split: option.splits)
next
  assume g: "(c_write c \<longrightarrow> c_directory c \<noteq> None)
            \<and> (case c_sci c of
                  None \<Rightarrow> probbase_xls \<noteq> [] \<and> 3 \<le> length (probbase_xls ! 0)
                | Some t \<Rightarrow> validSCI t)
            \<and> va_input_columns c \<noteq> []"
  show "run probbase_xls causetext check c = Inl (IOError ''error: no data input'')"
  proof (cases "c_sci c")
    case None
    with g assms show ?thesis by (auto simp: run_def)
  next
    case (Some t)
    with g have "validSCI t" by simp
    with validSCI_row0 [of t] Some g assms show ?thesis by (auto simp: run_def)
  qed
qed

theorem run_no_data_witness:
  "va_input_rows cfg0 = []
   \<and> run [] [] (\<lambda>i v. v) cfg0 = Inl (IOError ''error: no data input'')"
  using run_no_data [of cfg0 "[]" "[]" "\<lambda>i v. v"]
  by (simp add: cfg0_def validSCI_def list_all_iff)

section \<open>Pregnancy status (claim C4)\<close>

text \<open>
  C4. For a record of reproductive age whose Group A slice (three values, with a sum
  that is not 0, as it is for probabilities of which one is at least 0.1) has a value
  of at least 0.1 at its argmax, the label is the one of the three pregnancy labels
  that the argmax selects, and the likelihood is the rounded percentage of the value
  at index 1 when the argmax is 0 or 1, and of the value at index 2 when it is 2. The
  assignments are made in the order of the source, the last one standing.
\<close>

theorem preg_state_lik_argmax:
  assumes "length prob_A = 3" and "0.1 \<le> prob_A ! argmax prob_A" and "sum_list prob_A \<noteq> 0"
  shows "preg_state_lik prob_A True =
     Inr ([''Not pregnant or recently delivered'',
           ''Pregnancy ended within 6 weeks of death'',
           ''Pregnant at death''] ! argmax prob_A,
          PInt (py_round ((if argmax prob_A = 2 then prob_A ! 2 else prob_A ! 1)
                           / sum_list prob_A * 100)))"
proof -
  have ne: "prob_A \<noteq> []" using assms(1) by auto
  have "argmax prob_A < 3" using argmax_less [OF ne] assms(1) by simp
  then consider "argmax prob_A = 0" | "argmax prob_A = 1" | "argmax prob_A = 2"
    by linarith
  then show ?thesis
  proof cases
    case 1
    with assms ne show ?thesis
      by (simp add: preg_state_lik_def Let_def int_round_pct_def)
  next
    case 2
    with assms ne show ?thesis
      by (simp add: preg_state_lik_def Let_def int_round_pct_def)
  next
    case 3
    with assms ne show ?thesis
      by (simp add: preg_state_lik_def Let_def int_round_pct_def)
  qed
qed

text \<open>
  On the slice \<open>[0.6, 0.3, 0.1]\<close> the label is the one of index 0 and the likelihood
  is 30, from the value at index 1.
\<close>

theorem preg_state_lik_argmax_witness:
  "length prob_A_ex = 3 \<and> 0.1 \<le> prob_A_ex ! argmax prob_A_ex \<and> sum_list prob_A_ex \<noteq> 0
   \<and> preg_state_lik prob_A_ex True = Inr (''Not pregnant or recently delivered'', PInt 30)"
proof -
  have a: "argmax prob_A_ex = 0" by (simp add: prob_A_ex_def argmax_def)
  have n: "length prob_A_ex = 3" by (simp add: prob_A_ex_def)
  have s: "sum_list prob_A_ex = 1" by (simp add: prob_A_ex_def)
  have x: "prob_A_ex ! 0 = 0.6" by (simp add: prob_A_ex_def)
  have r: "py_round (prob_A_ex ! Suc 0 * 100) = 30" by (simp add: prob_A_ex_def py_round_def)
  show ?thesis
    using preg_state_lik_argmax [of prob_A_ex] by (simp add: a n s x r)
qed

section \<open>Circumstances of mortality category (claim C3)\<close>

lemma amax_scale:
  assumes "xs \<noteq> []" and "0 < s"
  shows "amax (map (\<lambda>x. x / s) xs) = amax xs / s"
proof -
  obtain y ys where xs: "xs = y # ys" using assms(1) by (cases xs) auto
  have m: "mono (\<lambda>x::real. x / s)"
    using assms(2) by (auto simp: mono_def divide_right_mono)
  have "Max ((\<lambda>x. x / s) ` set xs) = Max (set xs) / s"
    using mono_Max_commute [OF m, of "set xs"] assms(1) by simp
  then show ?thesis
    unfolding xs list.map amax_Cons_Max by (simp only: list.set(2) image_insert flip: set_map list.map(2))
qed

lemma argmax_scale:
  assumes "xs \<noteq> []" and "0 < s"
  shows "argmax (map (\<lambda>x. x / s) xs) = argmax xs"
proof -
  have "(\<lambda>x. x / s \<noteq> amax xs / s) = (\<lambda>x. x \<noteq> amax xs)"
    using assms(2) by (intro ext) simp
  then show ?thesis
    by (simp add: argmax_def amax_scale [OF assms] takeWhile_map comp_def)
qed

text \<open>
  C3, what the code does. The claim has the slice divided by its sum first and the
  maximum of the divided slice tested and reported. In the code \<open>prob_c_max\<close> is read
  one statement before the division: for every Group C slice (not empty, with a name
  for each value) the label and the likelihood are decided by the maximum of the slice
  as it is given. When that maximum is below 0.5 the label is "Multiple" with no
  likelihood, and otherwise the label is the name at the argmax and the likelihood is
  that maximum times 100, rounded. The divided slice is read by the argmax only, which
  the division does not change.
\<close>

theorem comcat_comnum_given_max:
  assumes "prob_C \<noteq> []" and "length prob_C \<le> length prob_C_names"
  shows "comcat_comnum prob_C_names prob_C =
           (if amax prob_C < 0.5 then Inr (''Multiple'', PStr '' '')
            else Inr (prob_C_names ! argmax prob_C, PInt (py_round (amax prob_C * 100))))"
proof -
  have lt: "argmax prob_C < length prob_C_names"
    using argmax_less [OF assms(1)] assms(2) by simp
  show ?thesis
  proof (cases "0 < sum_list prob_C")
    case True
    with assms lt argmax_scale [OF assms(1) True] show ?thesis
      by (simp add: comcat_comnum_def Let_def name_at_def)
  next
    case False
    with assms lt show ?thesis
      by (simp add: comcat_comnum_def Let_def name_at_def)
  qed
qed

text \<open>
  The slice \<open>[0.6, 0.1, 0.1, 0.1, 0.05, 0.05]\<close> gives the name at index 0 and the
  likelihood 60.
\<close>

theorem comcat_comnum_given_max_witness:
  "prob_C_ex \<noteq> [] \<and> length prob_C_ex \<le> length [''c1'', ''c2'', ''c3'', ''c4'', ''c5'', ''c6'']
   \<and> comcat_comnum [''c1'', ''c2'', ''c3'', ''c4'', ''c5'', ''c6''] prob_C_ex = Inr (''c1'', PInt 60)"
proof -
  have m: "amax prob_C_ex = 0.6" by (simp add: prob_C_ex_def)
  have a: "argmax prob_C_ex = 0" by (simp add: prob_C_ex_def argmax_def)
  have n: "length prob_C_ex = 6" "prob_C_ex \<noteq> []" by (simp_all add: prob_C_ex_def)
  have r: "py_round 60 = 60" by (simp add: py_round_def)
  show ?thesis
    using comcat_comnum_given_max [of prob_C_ex "[''c1'', ''c2'', ''c3'', ''c4'', ''c5'', ''c6'']"]
    by (simp add: m a n r)
qed

text \<open>
  The code departs from the claim on the slice \<open>[0.3, 0.1, 0, 0, 0, 0]\<close>: its sum is
  positive, the maximum of the slice divided by its sum is 0.75, which is not below 0.5,
  and the label is "Multiple" all the same. In the words of the claim the label is the
  first name and the likelihood is 75.
\<close>

lemma comcat_comnum_spec_cex:
  "comcat_comnum_spec [''c1'', ''c2'', ''c3'', ''c4'', ''c5'', ''c6''] prob_C_cex
     = Inr (''c1'', PInt 75)"
proof -
  have n: "map (\<lambda>x. x / sum_list prob_C_cex) prob_C_cex = [3 / 4, 1 / 4, 0, 0, 0, 0]"
    by (simp add: prob_C_cex_def)
  have s: "0 < sum_list prob_C_cex" "prob_C_cex \<noteq> []"
    by (simp_all add: prob_C_cex_def)
  have m: "amax [3 / 4, 1 / 4, 0, 0, 0, 0] = 3 / 4" by simp
  have a: "argmax [3 / 4, 1 / 4, 0, 0, 0, 0] = 0" by (simp add: argmax_def)
  have r: "py_round 75 = 75" by (simp add: py_round_def)
  show ?thesis
    by (simp add: comcat_comnum_spec_def Let_def s n m a r name_at_def)
qed

theorem comcat_comnum_failing_input:
  "0 < sum_list prob_C_cex
   \<and> \<not> amax (map (\<lambda>x. x / sum_list prob_C_cex) prob_C_cex) < 0.5
   \<and> comcat_comnum [''c1'', ''c2'', ''c3'', ''c4'', ''c5'', ''c6''] prob_C_cex
       = Inr (''Multiple'', PStr '' '')"
  by (simp add: prob_C_cex_def comcat_comnum_def)

section \<open>The three most likely causes (claim C2)\<close>

lemma delete_length: "i < length a \<Longrightarrow> length (delete a i) = length a - 1"
  by (auto simp: delete_def)

lemma top3_branch_raises:
  assumes "3 \<le> length prob_B" and "length prob_B \<le> length ns"
  shows "top3_branch ns prob_B = Inl TypeError"
proof -
  have ne1: "prob_B \<noteq> []" using assms(1) by auto
  let ?i1 = "argmax prob_B"
  let ?p2 = "delete prob_B ?i1"
  have i1: "?i1 < length prob_B" by (rule argmax_less [OF ne1])
  have l2: "length ?p2 = length prob_B - 1" by (rule delete_length [OF i1])
  have ne2: "?p2 \<noteq> []" using l2 assms(1) by auto
  let ?i2 = "argmax ?p2"
  let ?p3 = "delete ?p2 ?i2"
  have i2: "?i2 < length ?p2" by (rule argmax_less [OF ne2])
  have l3: "length ?p3 = length prob_B - 2" using delete_length [OF i2] l2 by simp
  have ne3: "?p3 \<noteq> []" using l3 assms(1) by auto
  have i3: "argmax ?p3 < length ?p3" by (rule argmax_less [OF ne3])
  have n1: "name_at ns ?i1 = Inr (ns ! ?i1)" using i1 assms(2) by (simp add: name_at_def)
  have n2: "name_at ns ?i2 = Inr (ns ! ?i2)" using i2 l2 assms(2) by (simp add: name_at_def)
  have n3: "name_at ns (argmax ?p3) = Inr (ns ! argmax ?p3)"
    using i3 l3 assms(2) by (simp add: name_at_def)
  show ?thesis
    unfolding top3_branch_def Let_def
    by (simp add: n1 n2 n3 ne2 ne3 split: prod.splits)
qed

text \<open>
  The first half of C2 holds: when the maximum of the slice is below 0.4, the three
  causes and likelihoods are blank and the indeterminacy is 100.
\<close>

lemma top3_causes_blank:
  assumes "prob_B \<noteq> []" and "amax prob_B < 0.4"
  shows "top3_causes ns prob_B =
           Inr \<lparr>cause1 = PStr '' '', lik1 = PStr '' '', cause2 = PStr '' '',
                lik2 = PStr '' '', cause3 = PStr '' '', lik3 = PStr '' '', indet = 100\<rparr>"
  using assms by (simp add: top3_causes_def)

text \<open>
  C2, what the code does in the other half. For a Group B slice with a maximum of at
  least 0.4 (at least three values, a name for each) no cause, likelihood or
  indeterminacy is produced: the conversion of \<open>top3\<close>, whose first element is an
  empty list, raises \<open>TypeError\<close>.
\<close>

theorem top3_causes_raises:
  assumes "0.4 \<le> amax prob_B" and "3 \<le> length prob_B" and "length prob_B \<le> length ns"
  shows "top3_causes ns prob_B = Inl TypeError"
proof -
  have "prob_B \<noteq> []" using assms(2) by auto
  then show ?thesis
    using assms(1) top3_branch_raises [OF assms(2,3)] by (simp add: top3_causes_def)
qed

theorem top3_causes_raises_witness:
  "0.4 \<le> amax prob_B_ex \<and> 3 \<le> length prob_B_ex
   \<and> length prob_B_ex \<le> length (replicate 61 ''cause'')
   \<and> top3_causes (replicate 61 ''cause'') prob_B_ex = Inl TypeError"
proof -
  have "0.6 \<in> set prob_B_ex" by (simp add: prob_B_ex_def)
  then have "0.6 \<le> amax prob_B_ex" by (rule amax_ge)
  then have m: "0.4 \<le> amax prob_B_ex" by simp
  have n: "length prob_B_ex = 61" by (simp add: prob_B_ex_def)
  show ?thesis
    using top3_causes_raises [of prob_B_ex "replicate 61 ''cause''"] m n by simp
qed

section \<open>The group sums after every update (claim C6)\<close>

lemma length_normalize_group [simp]:
  "lo \<le> hi \<Longrightarrow> length (normalize_group lo hi p) = length p"
  by (auto simp: normalize_group_def slice_def Let_def)

lemma nth_normalize_group:
  assumes "lo \<le> hi" and "i < length p"
  shows "normalize_group lo hi p ! i =
           (if 0 < sum_list (slice lo hi p) \<and> lo \<le> i \<and> i < hi
            then p ! i / sum_list (slice lo hi p) else p ! i)"
  using assms
  by (auto simp: normalize_group_def slice_def Let_def nth_append min_def)

lemma slice_normalize_group_other:
  assumes "lo \<le> hi" and "b \<le> lo \<or> hi \<le> a"
  shows "slice a b (normalize_group lo hi p) = slice a b p"
proof (rule nth_equalityI)
  show len: "length (slice a b (normalize_group lo hi p)) = length (slice a b p)"
    using assms(1) by (simp add: slice_def)
  fix i assume "i < length (slice a b (normalize_group lo hi p))"
  then have i: "i < b - a" "a + i < length p"
    using assms(1) by (auto simp: slice_def)
  then show "slice a b (normalize_group lo hi p) ! i = slice a b p ! i"
    using assms by (auto simp: slice_def nth_normalize_group)
qed

lemma slice_normalize_group_same:
  assumes "lo \<le> hi" and "0 < sum_list (slice lo hi p)"
  shows "slice lo hi (normalize_group lo hi p) =
           map (\<lambda>x. x / sum_list (slice lo hi p)) (slice lo hi p)"
proof (rule nth_equalityI)
  show "length (slice lo hi (normalize_group lo hi p)) =
          length (map (\<lambda>x. x / sum_list (slice lo hi p)) (slice lo hi p))"
    using assms(1) by (simp add: slice_def)
  fix i assume "i < length (slice lo hi (normalize_group lo hi p))"
  then have i: "i < hi - lo" "lo + i < length p"
    using assms(1) by (auto simp: slice_def)
  moreover from i have "lo + i < hi" by linarith
  ultimately show "slice lo hi (normalize_group lo hi p) ! i =
               map (\<lambda>x. x / sum_list (slice lo hi p)) (slice lo hi p) ! i"
    using assms nth_normalize_group [OF assms(1) i(2)]
    by (simp add: slice_def)
qed

lemma sum_list_divide: "sum_list (map (\<lambda>x. x / s) xs) = sum_list xs / (s::real)"
  by (induction xs) (simp_all add: add_divide_distrib)

lemma nonneg_sum_list: "\<forall>x\<in>set xs. 0 \<le> x \<Longrightarrow> 0 \<le> sum_list (xs::real list)"
  by (induction xs) auto

lemma nonneg_slice: "\<forall>x\<in>set p. (0::real) \<le> x \<Longrightarrow> \<forall>x\<in>set (slice lo hi p). 0 \<le> x"
  by (auto simp: slice_def dest!: in_set_takeD in_set_dropD)

lemma group_sum_ok_normalize:
  assumes "lo \<le> hi" and "\<forall>x\<in>set p. 0 \<le> x"
  shows "group_sum_ok lo hi (normalize_group lo hi p)"
proof (cases "0 < sum_list (slice lo hi p)")
  case True
  then show ?thesis
    by (simp add: group_sum_ok_def slice_normalize_group_same [OF assms(1) True] sum_list_divide)
next
  case False
  moreover have "0 \<le> sum_list (slice lo hi p)"
    by (rule nonneg_sum_list [OF nonneg_slice [OF assms(2)]])
  ultimately show ?thesis
    by (simp add: group_sum_ok_def normalize_group_def)
qed

lemma nonneg_normalize_group:
  assumes "lo \<le> hi" and "\<forall>x\<in>set p. 0 \<le> x"
  shows "\<forall>x\<in>set (normalize_group lo hi p). 0 \<le> x"
proof -
  have "\<And>i. i < length p \<Longrightarrow> 0 \<le> normalize_group lo hi p ! i"
    using assms by (simp add: nth_normalize_group)
  then show ?thesis
    using assms(1) by (auto simp: in_set_conv_nth)
qed

lemma group_sum_ok_other:
  assumes "lo \<le> hi" and "b \<le> lo \<or> hi \<le> a"
  shows "group_sum_ok a b (normalize_group lo hi p) = group_sum_ok a b p"
  by (simp add: group_sum_ok_def slice_normalize_group_other [OF assms])

lemma to_numeric_list_total:
  "list_all prob_cell cs \<Longrightarrow> \<exists>rs. to_numeric_list cs = Inr rs \<and> (\<forall>x\<in>set rs. 0 \<le> x)"
proof (induction cs)
  case Nil
  then show ?case by simp
next
  case (Cons c cs)
  then obtain rs where rs: "to_numeric_list cs = Inr rs" "\<forall>x\<in>set rs. 0 \<le> x" by auto
  from Cons.prems obtain r where c: "c = Num r" "0 \<le> r"
    by (cases c) (auto simp: prob_cell_def)
  show ?case using rs c by simp
qed

lemma nonneg_map2_times:
  assumes "\<forall>x\<in>set p. (0::real) \<le> x" and "\<forall>x\<in>set r. 0 \<le> x"
  shows "\<forall>x\<in>set (map2 (\<lambda>p r. p * r) p r). 0 \<le> x"
proof
  fix x assume "x \<in> set (map2 (\<lambda>p r. p * r) p r)"
  then obtain a b where ab: "(a, b) \<in> set (zip p r)" and x: "x = a * b" by auto
  from ab have "a \<in> set p" and "b \<in> set r"
    by (auto dest: set_zip_leftD set_zip_rightD)
  with assms x show "0 \<le> x" by simp
qed

lemma update_prob_invariant:
  assumes "\<forall>x\<in>set prob. 0 \<le> x" and "prob_row probbaseV5 D temp_sub"
  shows "\<exists>p. update_prob probbaseV5 D temp_sub prob = Inr p
            \<and> (\<forall>x\<in>set p. 0 \<le> x) \<and> groups_ok p"
proof -
  from assms(2) have len: "temp_sub + 1 < length probbaseV5"
    and cells: "list_all prob_cell (slice 17 D (probbaseV5 ! (temp_sub + 1)))"
    by (simp_all add: prob_row_def)
  from to_numeric_list_total [OF cells] obtain row where
    row: "to_numeric_list (slice 17 D (probbaseV5 ! (temp_sub + 1))) = Inr row" and
    r0: "\<forall>x\<in>set row. 0 \<le> x" by auto
  let ?q0 = "map2 (\<lambda>p r. p * r) prob row"
  let ?q1 = "normalize_group 0 3 ?q0"
  let ?q2 = "normalize_group 3 64 ?q1"
  let ?p = "normalize_group 64 70 ?q2"
  have p: "update_prob probbaseV5 D temp_sub prob = Inr ?p"
    using len row by (simp add: update_prob_def)
  have n0: "\<forall>x\<in>set ?q0. 0 \<le> x" by (rule nonneg_map2_times [OF assms(1) r0])
  have n1: "\<forall>x\<in>set ?q1. 0 \<le> x" by (rule nonneg_normalize_group [OF _ n0]) simp
  have n2: "\<forall>x\<in>set ?q2. 0 \<le> x" by (rule nonneg_normalize_group [OF _ n1]) simp
  have n3: "\<forall>x\<in>set ?p. 0 \<le> x" by (rule nonneg_normalize_group [OF _ n2]) simp
  have a: "group_sum_ok 0 3 ?q1" by (rule group_sum_ok_normalize [OF _ n0]) simp
  have b: "group_sum_ok 3 64 ?q2" by (rule group_sum_ok_normalize [OF _ n1]) simp
  have c: "group_sum_ok 64 70 ?p" by (rule group_sum_ok_normalize [OF _ n2]) simp
  have a': "group_sum_ok 0 3 ?p" using a by (simp add: group_sum_ok_other)
  have b': "group_sum_ok 3 64 ?p" using b by (simp add: group_sum_ok_other)
  show ?thesis using p n3 a' b' c by (simp add: groups_ok_def)
qed

lemma update_loop_invariant:
  assumes "\<forall>x\<in>set prob. 0 \<le> x" and "list_all (prob_row probbaseV5 D) temp"
  shows "\<exists>p. update_loop probbaseV5 D temp prob = Inr p
            \<and> (\<forall>x\<in>set p. 0 \<le> x) \<and> (temp = [] \<or> groups_ok p)"
  using assms
proof (induction temp arbitrary: prob)
  case Nil
  then show ?case by simp
next
  case (Cons t ts)
  from Cons.prems have t: "prob_row probbaseV5 D t" and ts: "list_all (prob_row probbaseV5 D) ts"
    by simp_all
  from update_prob_invariant [OF Cons.prems(1) t] obtain p1 where
    p1: "update_prob probbaseV5 D t prob = Inr p1" "\<forall>x\<in>set p1. 0 \<le> x" "groups_ok p1"
    by auto
  from Cons.IH [OF p1(2) ts] obtain p where
    p: "update_loop probbaseV5 D ts p1 = Inr p" "\<forall>x\<in>set p. 0 \<le> x" "ts = [] \<or> groups_ok p"
    by auto
  show ?case
  proof (cases ts)
    case Nil
    with p1 show ?thesis by simp
  next
    case (Cons u us)
    with p p1 show ?thesis by simp
  qed
qed

text \<open>
  C6. Start from a vector without negative entries, and let every row of the table that
  the loop reads hold numbers that are not negative in the cause columns. Then after
  each iteration of the update loop (after \<open>n\<close> iterations, for every \<open>n\<close> from 1 to
  the number of iterations) the loop has returned a vector, and the sum of each of
  its three groups is 0 or 1. Numbers are real numbers here, so the sum is exactly 1
  where the floating-point sum is 1 up to rounding.
\<close>

theorem group_sums_after_each_update:
  assumes "list_all (\<lambda>x. 0 \<le> x) prob"
      and "list_all (prob_row probbaseV5 D) temp"
      and "0 < n" and "n \<le> length temp"
  shows "\<exists>p. update_loop probbaseV5 D (take n temp) prob = Inr p \<and> groups_ok p"
proof -
  have a: "\<forall>x\<in>set prob. 0 \<le> x" using assms(1) by (simp add: list_all_iff)
  have b: "list_all (prob_row probbaseV5 D) (take n temp)"
    using assms(2) by (auto simp: list_all_iff dest: in_set_takeD)
  have c: "take n temp \<noteq> []" using assms(3,4) by auto
  from update_loop_invariant [OF a b] c show ?thesis by auto
qed

lemma length_zero_row0: "length (zero_row0 t) = length t"
  by (cases t) simp_all

lemma length_pb_ex: "length pb_ex = 354"
  by (simp add: pb_ex_def sci_ex_def replace_grades_def length_zero_row0)

lemma grade_A: "grade (Str ''A'') = Num 0.5"
  by (simp add: grade_def)

lemma pb_ex_eq:
  "pb_ex = [replicate 17 (Num 0) @ replicate 70 (Num 0.05)]
           @ replicate 19 (replicate 5 (Num 0) @ [Str ''N''] @ replicate 11 (Num 0)
                           @ replicate 70 (Num 0.5))
           @ [replicate 5 (Num 0) @ [Str ''Y''] @ replicate 11 (Num 0) @ replicate 3 (Num 0.5)
              @ [Num 1] @ replicate 60 (Num 0) @ replicate 6 (Num 0.5)]
           @ replicate 333 (replicate 5 (Num 0) @ [Str ''N''] @ replicate 11 (Num 0)
                            @ replicate 70 (Num 0.5))"
  by (simp add: pb_ex_def sci_ex_def replace_grades_def row_P_def row_A_def row_Y_def grade_def)

lemma pb_ex_row: "0 < i \<Longrightarrow> i < 354 \<Longrightarrow> i \<noteq> 20 \<Longrightarrow>
  pb_ex ! i = replicate 5 (Num 0) @ [Str ''N''] @ replicate 11 (Num 0) @ replicate 70 (Num 0.5)"
  unfolding pb_ex_eq by (auto simp: nth_append nth_Cons')

lemma pb_ex_row2: "slice 17 87 (pb_ex ! 2) = replicate 70 (Num 0.5)"
  by (simp add: pb_ex_row slice_def)

lemma prob_row_pb_ex: "prob_row pb_ex 87 (Suc 0)"
  by (simp add: prob_row_def length_pb_ex pb_ex_row2 [unfolded numeral_2_eq_2]
        list_all_iff prob_cell_def)

theorem group_sums_after_each_update_witness:
  "list_all (\<lambda>x. 0 \<le> x) (replicate 70 (1 / 2 :: real))
   \<and> list_all (prob_row pb_ex 87) [1, 1, 1] \<and> (0::nat) < 2 \<and> 2 \<le> length [1, 1, 1 :: nat]
   \<and> (\<exists>p. update_loop pb_ex 87 (take 2 [1, 1, 1]) (replicate 70 (1 / 2)) = Inr p \<and> groups_ok p)"
proof -
  have a: "list_all (\<lambda>x. 0 \<le> x) (replicate 70 (1 / 2 :: real))" by (simp add: list_all_iff)
  have b: "list_all (prob_row pb_ex 87) [1, 1, 1]" by (simp add: prob_row_pb_ex)
  show ?thesis
    using group_sums_after_each_update [OF a b, of 2] a b by simp
qed

section \<open>Evaluation on the concrete table\<close>

lemma normalize_group_0_3:
  "length A = 3 \<Longrightarrow> normalize_group 0 3 (A @ R) = normalize_list A @ R"
  by (simp add: normalize_group_def slice_def normalize_list_def)

lemma normalize_group_3_64:
  "length A = 3 \<Longrightarrow> length B = 61 \<Longrightarrow>
   normalize_group 3 64 (A @ B @ R) = A @ normalize_list B @ R"
  by (simp add: normalize_group_def slice_def normalize_list_def)

lemma normalize_group_64_70:
  "length A = 3 \<Longrightarrow> length B = 61 \<Longrightarrow> length C = 6 \<Longrightarrow>
   normalize_group 64 70 (A @ B @ C) = A @ B @ normalize_list C"
  by (simp add: normalize_group_def slice_def normalize_list_def)

lemma length_normalize_list [simp]: "length (normalize_list xs) = length xs"
  by (simp add: normalize_list_def)

lemma normalize_groups_append:
  assumes "length A = 3" and "length B = 61" and "length C = 6"
  shows "normalize_group 64 70 (normalize_group 3 64 (normalize_group 0 3 (A @ B @ C)))
           = normalize_list A @ normalize_list B @ normalize_list C"
  using assms
  by (simp add: normalize_group_0_3 normalize_group_3_64 normalize_group_64_70)

lemma map2_replicate_right:
  "length xs = n \<Longrightarrow> map2 f xs (replicate n c) = map (\<lambda>x. f x c) xs"
  by (induction xs arbitrary: n) auto

lemma to_numeric_list_map_Num: "to_numeric_list (map Num xs) = Inr xs"
  by (induction xs) simp_all

lemma update_prob_row2:
  "length prob = 70 \<Longrightarrow> update_prob pb_ex 87 1 prob =
     Inr (normalize_group 64 70 (normalize_group 3 64 (normalize_group 0 3
            (map (\<lambda>x. x * 0.5) prob))))"
proof -
  assume l: "length prob = 70"
  have "slice 17 87 (pb_ex ! 2) = map Num (replicate 70 0.5)"
    by (simp add: pb_ex_row2)
  then have "to_numeric_list (slice 17 87 (pb_ex ! (1 + 1))) = Inr (replicate 70 0.5)"
    by (simp only: to_numeric_list_map_Num one_add_one)
  then show ?thesis
    using map2_replicate_right [OF l, of "\<lambda>p r. p * r" "0.5"]
    by (simp add: update_prob_def length_pb_ex)
qed

lemma update_prob_prior_ex: "update_prob pb_ex 87 1 prior_ex = Inr post_ex"
proof -
  have l: "length prior_ex = 70" by (simp add: prior_ex_def)
  have m: "map (\<lambda>x. x * 0.5) prior_ex
             = replicate 3 (1 / 40) @ replicate 61 (1 / 40) @ replicate 6 (1 / 40)"
    by (simp add: prior_ex_def)
  have n3: "normalize_list (replicate 3 (1 / 40)) = replicate 3 (1 / 3)"
    by (simp add: normalize_list_def sum_list_replicate)
  have n61: "normalize_list (replicate 61 (1 / 40)) = replicate 61 (1 / 61)"
    by (simp add: normalize_list_def sum_list_replicate)
  have n6: "normalize_list (replicate 6 (1 / 40)) = replicate 6 (1 / 6)"
    by (simp add: normalize_list_def sum_list_replicate)
  show ?thesis
    unfolding update_prob_row2 [OF l] m
    by (simp add: normalize_groups_append n3 n61 n6 post_ex_def)
qed

lemma preg_state_lik_not_reproductive:
  "prob_A \<noteq> [] \<Longrightarrow> preg_state_lik prob_A False = Inr (''n/a'', PStr '' '')"
  by (simp add: preg_state_lik_def)

lemma comcat_comnum_multiple:
  "prob_C \<noteq> [] \<Longrightarrow> amax prob_C < 0.5 \<Longrightarrow>
   comcat_comnum ns prob_C = Inr (''Multiple'', PStr '' '')"
  by (simp add: comcat_comnum_def)

lemma length_post_subst [simp]: "length (post_subst xs) = length xs"
  by (simp add: post_subst_def)

lemma length_write_through [simp]: "length (write_through prob rows) = length rows"
  by (simp add: write_through_def)

lemma write_through_replicate_None [simp]:
  "write_through prob (replicate N None) = replicate N None"
  by (simp add: write_through_def)

lemma write_through_Nil [simp]: "write_through prob [] = []"
  by (simp add: write_through_def)

lemma write_through_Cons_None [simp]:
  "write_through prob (None # rows) = None # write_through prob rows"
  by (simp add: write_through_def)

lemma write_through_Cons_undetermined [simp]:
  "write_through prob (Some (undetermined_row E index_current p) # rows)
     = Some (undetermined_row E index_current prob) # write_through prob rows"
  by (simp add: write_through_def undetermined_row_def)

lemma classify_undetermined:
  assumes "e_S E \<le> length checked"
      and "infer (e_probbaseV5 E) (e_D E)
             (new_input_of checked (subst_vector (e_probbaseV5 E)) (e_S E))
             (length checked) (slice 17 (e_D E) (Sys_Prior st)) = Inr prob"
      and "\<not> reproductiveAge_of (post_subst checked)"
      and "slice 0 3 prob \<noteq> []"
      and "slice 3 64 prob \<noteq> []" and "amax (slice 3 64 prob) < 0.4"
      and "slice 64 70 prob \<noteq> []" and "amax (slice 64 70 prob) < 0.5"
      and "e_write E = False"
  shows "classify E i index_current checked st =
           Inr (st\<lparr>Sys_Prior := take 17 (Sys_Prior st) @ prob,
                   ID_list := ID_list st @ [index_current],
                   VA_result := (write_through prob (VA_result st))
                     [i := Some (undetermined_row E index_current prob)]\<rparr>)"
  using assms
  by (simp add: classify_def Let_def preg_state_lik_not_reproductive top3_causes_blank
        comcat_comnum_multiple undetermined_row_def save_va5_def save_va5_prob_def)

lemma subst_vector_pb_ex:
  "subst_vector pb_ex = [None] @ replicate 19 (Some 0) @ [Some 1] @ replicate 333 (Some 0)"
  unfolding pb_ex_eq subst_vector_def by (simp add: nth_append)

lemma ic1_nth: "y < 354 \<Longrightarrow>
  ic1 ! y = (if y = 0 then Some 0 else if y = 3 \<or> y = 5 \<or> y = 20 then Some 1 else None)"
  unfolding ic1_def by (auto simp: nth_append nth_Cons')

lemma icZ_nth: "y < 354 \<Longrightarrow>
  icZ ! y = (if y = 0 then Some 0 else if y = 3 \<or> y = 5 \<or> y = 21 then Some 1 else None)"
  unfolding icZ_def by (auto simp: nth_append nth_Cons')

lemma subst_nth: "y < 354 \<Longrightarrow>
  subst_vector pb_ex ! y = (if y = 0 then None else if y = 20 then Some 1 else Some 0)"
  unfolding subst_vector_pb_ex by (auto simp: nth_append nth_Cons')

lemma new_input_ex_nth: "y < 354 \<Longrightarrow> new_input_ex ! y = (if y = 20 then 1 else 0)"
  unfolding new_input_ex_def by (auto simp: nth_append nth_Cons')

lemma new_input_of_ic1: "new_input_of ic1 (subst_vector pb_ex) 354 = new_input_ex"
proof (rule nth_equalityI)
  show "length (new_input_of ic1 (subst_vector pb_ex) 354) = length new_input_ex"
    by (simp add: new_input_of_def new_input_ex_def)
  fix y assume "y < length (new_input_of ic1 (subst_vector pb_ex) 354)"
  then have y: "y < 354" by (simp add: new_input_of_def)
  then show "new_input_of ic1 (subst_vector pb_ex) 354 ! y = new_input_ex ! y"
    by (simp add: new_input_of_def ic1_nth subst_nth new_input_ex_nth)
qed

lemma new_input_of_icZ: "new_input_of icZ (subst_vector pb_ex) 354 = replicate 354 0"
proof (rule nth_equalityI)
  show "length (new_input_of icZ (subst_vector pb_ex) 354) = length (replicate 354 (0::nat))"
    by (simp add: new_input_of_def)
  fix y assume "y < length (new_input_of icZ (subst_vector pb_ex) 354)"
  then have y: "y < 354" by (simp add: new_input_of_def)
  then show "new_input_of icZ (subst_vector pb_ex) 354 ! y = replicate 354 0 ! y"
    by (simp add: new_input_of_def icZ_nth subst_nth)
qed

lemma temp_of_new_input_ex: "temp_of new_input_ex 354 = [1]"
  by (simp add: temp_of_def slice_def new_input_ex_def)

lemma temp_of_zero: "temp_of (replicate 354 0) 354 = []"
  by (simp add: temp_of_def slice_def)

lemma length_ic [simp]: "length ic1 = 354" "length icZ = 354"
  by (simp_all add: ic1_def icZ_def)

lemma not_reproductive_ic1: "\<not> reproductiveAge_of (post_subst ic1)"
  by (simp add: reproductiveAge_of_def post_subst_def ic1_nth)

lemma not_reproductive_icZ: "\<not> reproductiveAge_of (post_subst icZ)"
  by (simp add: reproductiveAge_of_def post_subst_def icZ_nth)

lemma amax_replicate: "0 < n \<Longrightarrow> amax (replicate n c) = c"
  using amax_in_set [of "replicate n c"] by auto

lemma slices_prior_ex:
  "slice 0 3 prior_ex = replicate 3 0.05" "slice 3 64 prior_ex = replicate 61 0.05"
  "slice 64 70 prior_ex = replicate 6 0.05"
  by (simp_all add: slice_def prior_ex_def)

lemma slices_post_ex:
  "slice 0 3 post_ex = replicate 3 (1 / 3)" "slice 3 64 post_ex = replicate 61 (1 / 61)"
  "slice 64 70 post_ex = replicate 6 (1 / 6)"
  by (simp_all add: slice_def post_ex_def)

lemma length_prior_post [simp]: "length prior_ex = 70" "length post_ex = 70"
  by (simp_all add: prior_ex_def post_ex_def)

lemma classify_ic1:
  assumes "Sys_Prior st = replicate 17 0 @ prior_ex"
  shows "classify (E_ex False) i index_current ic1 st =
           Inr (st\<lparr>Sys_Prior := replicate 17 0 @ post_ex,
                   ID_list := ID_list st @ [index_current],
                   VA_result := (write_through post_ex (VA_result st))
                     [i := Some (undetermined_row (E_ex False) index_current post_ex)]\<rparr>)"
proof -
  have inf: "infer (e_probbaseV5 (E_ex False)) (e_D (E_ex False))
             (new_input_of ic1 (subst_vector (e_probbaseV5 (E_ex False))) (e_S (E_ex False)))
             (length ic1) (slice 17 (e_D (E_ex False)) (Sys_Prior st)) = Inr post_ex"
    by (simp add: E_ex_def new_input_of_ic1 infer_def temp_of_new_input_ex assms slice_def
          update_prob_prior_ex [unfolded One_nat_def])
  have "classify (E_ex False) i index_current ic1 st =
           Inr (st\<lparr>Sys_Prior := take 17 (Sys_Prior st) @ post_ex,
                   ID_list := ID_list st @ [index_current],
                   VA_result := (write_through post_ex (VA_result st))
                     [i := Some (undetermined_row (E_ex False) index_current post_ex)]\<rparr>)"
    by (rule classify_undetermined [OF _ inf not_reproductive_ic1])
       (simp_all add: E_ex_def slices_post_ex amax_replicate)
  then show ?thesis by (simp add: assms)
qed

lemma classify_icZ:
  assumes "Sys_Prior st = replicate 17 0 @ p" and "p = prior_ex \<or> p = post_ex"
  shows "classify (E_ex False) i index_current icZ st =
           Inr (st\<lparr>ID_list := ID_list st @ [index_current],
                   VA_result := (write_through p (VA_result st))
                     [i := Some (undetermined_row (E_ex False) index_current p)]\<rparr>)"
proof -
  have l: "length p = 70" using assms(2) by auto
  have inf: "infer (e_probbaseV5 (E_ex False)) (e_D (E_ex False))
             (new_input_of icZ (subst_vector (e_probbaseV5 (E_ex False))) (e_S (E_ex False)))
             (length icZ) (slice 17 (e_D (E_ex False)) (Sys_Prior st)) = Inr p"
    using l by (simp add: E_ex_def new_input_of_icZ infer_def temp_of_zero assms(1) slice_def)
  have "classify (E_ex False) i index_current icZ st =
           Inr (st\<lparr>Sys_Prior := take 17 (Sys_Prior st) @ p,
                   ID_list := ID_list st @ [index_current],
                   VA_result := (write_through p (VA_result st))
                     [i := Some (undetermined_row (E_ex False) index_current p)]\<rparr>)"
    using assms(2)
    by (intro classify_undetermined [OF _ inf not_reproductive_icZ])
       (auto simp: E_ex_def slices_post_ex slices_prior_ex amax_replicate)
  then show ?thesis by (simp add: assms(1))
qed

lemma canon_rec1: "(map canon rec1)[0 := Some 0] = ic1"
  by (simp add: rec1_def ic1_def)

lemma canon_recZ: "(map canon recZ)[0 := Some 0] = icZ"
  by (simp add: recZ_def icZ_def)

lemma nansum_ic1:
  "nansum (slice 5 12 ic1) = 1" "nansum (slice 3 5 ic1) = 1" "nansum (slice 20 328 ic1) = 1"
  by (simp_all add: nansum_def slice_def ic1_def sum_list_replicate)

lemma nansum_icZ:
  "nansum (slice 5 12 icZ) = 1" "nansum (slice 3 5 icZ) = 1" "nansum (slice 20 328 icZ) = 1"
  by (simp_all add: nansum_def slice_def icZ_def sum_list_replicate)

lemma process_record_rec1:
  assumes "Sys_Prior st = replicate 17 0 @ prior_ex"
  shows "process_record (E_ex False) i rec1 st =
           Inr (Accepted (st\<lparr>Sys_Prior := replicate 17 0 @ post_ex,
                   ID_list := ID_list st @ [Str ''d1''],
                   VA_result := (write_through post_ex (VA_result st))
                     [i := Some (undetermined_row (E_ex False) (Str ''d1'') post_ex)]\<rparr>))"
proof -
  have a: "rec1 \<noteq> []" "rec1 ! 0 = Str ''d1''" by (simp_all add: rec1_def)
  have d: "e_datacheck5 (E_ex False) = (\<lambda>index_current input_current. input_current)"
    by (simp add: E_ex_def)
  show ?thesis
    unfolding process_record_def Let_def canon_rec1
    by (simp add: a d nansum_ic1 classify_ic1 [OF assms])
qed

lemma process_record_recZ:
  assumes "Sys_Prior st = replicate 17 0 @ p" and "p = prior_ex \<or> p = post_ex"
  shows "process_record (E_ex False) i recZ st =
           Inr (Accepted (st\<lparr>ID_list := ID_list st @ [Str ''d2''],
                   VA_result := (write_through p (VA_result st))
                     [i := Some (undetermined_row (E_ex False) (Str ''d2'') p)]\<rparr>))"
proof -
  have a: "recZ \<noteq> []" "recZ ! 0 = Str ''d2''" by (simp_all add: recZ_def)
  have d: "e_datacheck5 (E_ex False) = (\<lambda>index_current input_current. input_current)"
    by (simp add: E_ex_def)
  show ?thesis
    unfolding process_record_def Let_def canon_recZ
    by (simp add: a d nansum_icZ classify_icZ [OF assms])
qed

lemma process_record_rec0:
  "process_record (E_ex w) i rec0 st = (if w then Inl TypeError else Inr Excluded)"
proof -
  have "(map canon rec0)[0 := Some 0] = [Some 0] @ replicate 353 None"
    by (simp add: rec0_def)
  then have "nansum (slice 5 12 ((map canon rec0)[0 := Some 0])) = 0"
    by (simp add: nansum_def slice_def sum_list_replicate)
  moreover have "rec0 \<noteq> []" by (simp add: rec0_def)
  ultimately show ?thesis
    by (simp add: process_record_def Let_def E_ex_def)
qed

lemma validSCI_sci_ex: "validSCI sci_ex"
  by (simp add: validSCI_def sci_ex_def list_all_iff row_P_def row_A_def row_Y_def)

lemma build_Sys_Prior_ex:
  "build_Sys_Prior (pb_ex ! 0) ''h'' ''h'' = Inr (replicate 17 0 @ prior_ex)"
proof -
  have r0: "pb_ex ! 0 = map Num (replicate 17 0 @ replicate 70 0.05)"
    by (simp add: pb_ex_eq)
  have u1: "set_malaria ''h'' (set_hiv ''h'' (replicate 17 0 @ replicate 70 0.05))
             = (replicate 17 0 @ replicate 70 0.05)[22 := 0.05, 24 := 0.05, 44 := 0.05]"
    by (simp add: set_hiv_def set_malaria_def)
  have u2: "(replicate 17 0 @ replicate 70 0.05)[22 := 0.05, 24 := 0.05, 44 := 0.05]
             = replicate 17 0 @ replicate 70 (0.05::real)"
    by (rule nth_equalityI) (auto simp: nth_list_update nth_append)
  have u: "set_malaria ''h'' (set_hiv ''h'' (replicate 17 0 @ replicate 70 (1 / 20)))
             = replicate 17 0 @ replicate 70 (1 / 20)"
    using u1 u2 by simp
  have p: "prior_ex = replicate 70 (1 / 20)"
    by (simp add: prior_ex_def replicate_add [symmetric])
  show ?thesis
    unfolding build_Sys_Prior_def r0 to_numeric_list_map_Num
    by (simp add: not_in_def u p)
qed

lemma run_ex:
  assumes "rows \<noteq> []"
  shows "run [] (replicate 70 ''cause'') (\<lambda>index_current input_current. input_current)
           (cfg_ex w rows) =
         (case record_loop (E_ex w) 0 rows (st0_ex (length rows)) of
            Inl e \<Rightarrow> Inl e
          | Inr st \<Rightarrow> assemble (E_ex w) st)"
proof -
  have l: "lower ''i459o'' = ''i459o''" "lower ''H'' = ''h''" "lower ''h'' = ''h''"
    by (simp_all add: lower_def lower_char_def)
  have s: "sci_ex \<noteq> []" "length sci_ex = 354" "3 \<le> length (sci_ex ! 0)"
    by (simp_all add: sci_ex_def row_P_def)
  have n: "(replicate 353 ''i'' @ [''i459o'']) ! 353 = ''i459o''"
    by (simp add: nth_append)
  have E: "\<lparr>e_probbaseV5 = pb_ex, e_S = 354, e_D = 87,
             e_prob_names = replicate 70 ''cause'',
             e_datacheck5 = \<lambda>index_current input_current. input_current,
             e_hiv = ''h'', e_malaria = ''h'', e_write = w, e_output = ''classic''\<rparr>
           = E_ex w"
    by (simp add: E_ex_def)
  show ?thesis
    using assms s
    by (simp add: run_def cfg_ex_def validSCI_sci_ex l n Let_def pb_ex_def [symmetric]
          build_Sys_Prior_ex E st0_ex_def)
qed

section \<open>Which rows of the table the inference reads (claim C1)\<close>

lemma filter_eq_replicate:
  "filter (\<lambda>v. v = c) xs = replicate (length (filter (\<lambda>v. v = c) xs)) c"
  by (induction xs) simp_all

text \<open>
  C1, what the code does. The claim has the inference multiply the vector, for every symptom flagged
  informative, by the row of the table of that symptom. In the code \<open>temp\<close> holds
  the values selected by the mask, which are all 1, and not their positions: whatever
  the record, the inference applies the update with \<open>temp_sub = 1\<close>, which reads row 2
  of the table, once for every informative symptom. The renormalisation of the three
  groups is that of \<open>update_prob\<close>.
\<close>

theorem infer_reads_row_2:
  "infer probbaseV5 D new_input input_len prob =
     update_loop probbaseV5 D (replicate (length (temp_of new_input input_len)) 1) prob"
  unfolding infer_def temp_of_def by (subst filter_eq_replicate) (rule refl)

text \<open>
  On \<open>new_input_ex\<close>, whose only informative symptom is 20, \<open>infer\<close> and
  \<open>infer_spec\<close> give different vectors.
\<close>

lemma informative_rows_ex: "informative_rows new_input_ex = [20]"
proof -
  have u: "[1..<354] = [1..<20] @ [20] @ [21..<354]"
    by (simp add: upt_add_eq_append [of 1 20 334, simplified] upt_rec [of 20])
  have a: "filter (\<lambda>y. new_input_ex ! y = 1) [1..<20] = []"
    by (simp add: filter_empty_conv new_input_ex_nth)
  have b: "filter (\<lambda>y. new_input_ex ! y = 1) [21..<354] = []"
    by (simp add: filter_empty_conv new_input_ex_nth)
  have l: "length new_input_ex = 354" by (simp add: new_input_ex_def)
  show ?thesis
    unfolding informative_rows_def l u filter_append a b
    by (simp add: new_input_ex_nth)
qed

lemma pb_ex_row20:
  "slice 17 87 (pb_ex ! 20) = map Num (replicate 3 0.5 @ ([1] @ replicate 60 0) @ replicate 6 0.5)"
  by (simp add: pb_ex_eq nth_append slice_def)

lemma infer_ex: "infer pb_ex 87 new_input_ex 354 prior_ex = Inr post_ex"
  by (simp add: infer_def temp_of_new_input_ex update_prob_prior_ex [unfolded One_nat_def])

lemma infer_spec_ex: "infer_spec pb_ex 87 new_input_ex prior_ex = Inr spec_post_ex"
proof -
  have t: "to_numeric_list (slice 17 87 (pb_ex ! (19 + 1)))
             = Inr (replicate 3 0.5 @ ([1] @ replicate 60 0) @ replicate 6 0.5)"
  proof -
    have "(19::nat) + 1 = 20" by simp
    then show ?thesis by (simp only: pb_ex_row20 to_numeric_list_map_Num)
  qed
  have m: "map2 (\<lambda>p r. p * r) prior_ex
             (replicate 3 0.5 @ ([1] @ replicate 60 0) @ replicate 6 0.5)
           = replicate 3 (1 / 40) @ ([1 / 20] @ replicate 60 0) @ replicate 6 (1 / 40)"
  proof -
    have r: "replicate 61 (1 / 20 :: real) = [1 / 20] @ replicate 60 (1 / 20)"
      using replicate_add [of 1 60 "1 / 20 :: real"] by simp
    show ?thesis
      by (simp add: prior_ex_def r)
  qed
  have n3: "normalize_list (replicate 3 (1 / 40)) = replicate 3 (1 / 3)"
    by (simp add: normalize_list_def sum_list_replicate)
  have n61: "normalize_list ([1 / 20] @ replicate 60 0) = [1] @ replicate 60 0"
    by (simp add: normalize_list_def sum_list_replicate)
  have n6: "normalize_list (replicate 6 (1 / 40)) = replicate 6 (1 / 6)"
    by (simp add: normalize_list_def sum_list_replicate)
  have g: "normalize_group 64 70 (normalize_group 3 64 (normalize_group 0 3
             (replicate 3 (1 / 40) @ ([1 / 20] @ replicate 60 0) @ replicate 6 (1 / 40))))
           = normalize_list (replicate 3 (1 / 40)) @ normalize_list ([1 / 20] @ replicate 60 0)
               @ normalize_list (replicate 6 (1 / 40))"
    by (rule normalize_groups_append) simp_all
  have "update_prob pb_ex 87 19 prior_ex = Inr spec_post_ex"
    by (simp only: update_prob_def t sum.case m g n3 n61 n6 length_pb_ex
          spec_post_ex_def [symmetric]) simp
  then show ?thesis
    by (simp add: infer_spec_def informative_rows_ex)
qed

lemma infer_differs_from_spec: "post_ex \<noteq> spec_post_ex"
proof
  assume "post_ex = spec_post_ex"
  then have "post_ex ! 3 = spec_post_ex ! 3" by simp
  then show False by (simp add: post_ex_def spec_post_ex_def nth_append)
qed

section \<open>A record with no informative symptom (claim C7)\<close>

lemma temp_of_no_informative:
  assumes "1 \<notin> set (drop 1 new_input)"
  shows "temp_of new_input input_len = []"
proof -
  have "set (slice 1 input_len new_input) \<subseteq> set (drop 1 new_input)"
    unfolding slice_def by (rule set_take_subset)
  with assms have "1 \<notin> set (slice 1 input_len new_input)" by blast
  then show ?thesis
    by (auto simp: temp_of_def filter_empty_conv)
qed

lemma infer_no_informative:
  assumes "1 \<notin> set (drop 1 new_input)"
  shows "infer probbaseV5 D new_input input_len prob = Inr prob"
  by (simp add: infer_def temp_of_no_informative [OF assms])

lemma classify_WHOLEPROB:
  assumes "classify E i index_current checked st = Inr st'"
      and "i < length (VA_result st)"
      and "infer (e_probbaseV5 E) (e_D E)
             (new_input_of checked (subst_vector (e_probbaseV5 E)) (e_S E))
             (length (post_subst checked)) (slice 17 (e_D E) (Sys_Prior st)) = Inr prob"
  shows "\<exists>row. VA_result st' ! i = Some row \<and> WHOLEPROB row = prob
            \<and> Sys_Prior st' = take 17 (Sys_Prior st) @ prob"
  using assms
  by (auto simp: classify_def Let_def split: if_splits sum.splits prod.splits)

text \<open>
  C7, what the code does. The claim has every accepted record without an informative
  symptom get the prior as its combined probabilities. In the code such a record
  gets the vector \<open>Sys_Prior[17:D]\<close> as it stands when the record is reached: for
  a checked record none of whose symptoms is flagged informative
  (\<open>new_input[y] \<noteq> 1\<close> for every \<open>y \<ge> 1\<close>), the inference returns the vector
  it started from, with no update applied, and when the record is classified the row
  stored for it holds that vector. That vector is the prior only as long as no record
  before has had an informative symptom, since the updates of a record stay in
  \<open>Sys_Prior\<close>.
\<close>

theorem zero_informative_returns_Sys_Prior:
  assumes "1 \<notin> set (drop 1 (new_input_of checked (subst_vector (e_probbaseV5 E)) (e_S E)))"
  shows "infer (e_probbaseV5 E) (e_D E)
           (new_input_of checked (subst_vector (e_probbaseV5 E)) (e_S E))
           (length (post_subst checked)) (slice 17 (e_D E) (Sys_Prior st))
         = Inr (slice 17 (e_D E) (Sys_Prior st))
       \<and> (\<forall>st'. classify E i index_current checked st = Inr st' \<longrightarrow>
              i < length (VA_result st) \<longrightarrow>
              (\<exists>row. VA_result st' ! i = Some row
                 \<and> WHOLEPROB row = slice 17 (e_D E) (Sys_Prior st)))"
proof (intro conjI allI impI)
  show inf: "infer (e_probbaseV5 E) (e_D E)
           (new_input_of checked (subst_vector (e_probbaseV5 E)) (e_S E))
           (length (post_subst checked)) (slice 17 (e_D E) (Sys_Prior st))
         = Inr (slice 17 (e_D E) (Sys_Prior st))"
    by (rule infer_no_informative [OF assms])
  fix st'
  assume "classify E i index_current checked st = Inr st'" and "i < length (VA_result st)"
  from classify_WHOLEPROB [OF this inf]
  show "\<exists>row. VA_result st' ! i = Some row
           \<and> WHOLEPROB row = slice 17 (e_D E) (Sys_Prior st)"
    by blast
qed

lemma no_informative_icZ:
  "1 \<notin> set (drop 1 (new_input_of icZ (subst_vector (e_probbaseV5 (E_ex False))) (e_S (E_ex False))))"
  by (simp add: E_ex_def new_input_of_icZ)

lemma st1_ex_eq:
  "st1_ex = \<lparr>Sys_Prior = replicate 17 0 @ post_ex, ID_list = [Str ''d1''],
             VA_result = [Some (undetermined_row (E_ex False) (Str ''d1'') post_ex), None]\<rparr>"
  by (simp add: st1_ex_def undetermined_row_def E_ex_def)

lemma record_loop_rec1:
  "record_loop (E_ex False) 0 [rec1] (st0_ex 2) = Inr st1_ex"
  using process_record_rec1 [where st = "st0_ex 2" and i = 0]
  by (simp add: st0_ex_def st1_ex_eq numeral_2_eq_2)

lemma classify_icZ_st1:
  "classify (E_ex False) (Suc 0) (Str ''d2'') icZ st1_ex =
     Inr \<lparr>Sys_Prior = replicate 17 0 @ post_ex, ID_list = [Str ''d1'', Str ''d2''],
          VA_result = [Some (undetermined_row (E_ex False) (Str ''d1'') post_ex),
                       Some (undetermined_row (E_ex False) (Str ''d2'') post_ex)]\<rparr>"
  using classify_icZ [of st1_ex post_ex "Suc 0" "Str ''d2''"]
  by (simp add: st1_ex_eq)

text \<open>
  The code departs from the claim on the records \<open>rec1\<close>, \<open>recZ\<close> in this order:
  \<open>recZ\<close> has no informative symptom, it is reached in the state that \<open>rec1\<close> has
  left, and the vector stored for it is the posterior of \<open>rec1\<close> and not the prior.
\<close>

theorem zero_informative_returns_Sys_Prior_witness:
  "1 \<notin> set (drop 1 (new_input_of icZ (subst_vector (e_probbaseV5 (E_ex False)))
                       (e_S (E_ex False))))
   \<and> (map canon recZ)[0 := Some 0] = icZ
   \<and> record_loop (E_ex False) 0 [rec1] (st0_ex 2) = Inr st1_ex
   \<and> infer (e_probbaseV5 (E_ex False)) (e_D (E_ex False))
           (new_input_of icZ (subst_vector (e_probbaseV5 (E_ex False))) (e_S (E_ex False)))
           (length (post_subst icZ)) (slice 17 (e_D (E_ex False)) (Sys_Prior st1_ex))
         = Inr post_ex
   \<and> (\<exists>st'. classify (E_ex False) (Suc 0) (Str ''d2'') icZ st1_ex = Inr st'
        \<and> (\<exists>row. VA_result st' ! Suc 0 = Some row \<and> WHOLEPROB row = post_ex))
   \<and> slice 17 (e_D (E_ex False)) (Sys_Prior (st0_ex 2)) = prior_ex
   \<and> post_ex \<noteq> prior_ex"
proof -
  have l: "Suc 0 < length (VA_result st1_ex)" by (simp add: st1_ex_def)
  have s: "slice 17 (e_D (E_ex False)) (Sys_Prior st1_ex) = post_ex"
    by (simp add: E_ex_def st1_ex_def slice_def)
  have s0: "slice 17 (e_D (E_ex False)) (Sys_Prior (st0_ex 2)) = prior_ex"
    by (simp add: E_ex_def st0_ex_def slice_def)
  have n: "post_ex \<noteq> prior_ex"
  proof
    assume "post_ex = prior_ex"
    then have "post_ex ! 0 = prior_ex ! 0" by simp
    then show False by (simp add: prior_ex_def post_ex_def nth_append)
  qed
  show ?thesis
    using zero_informative_returns_Sys_Prior [OF no_informative_icZ,
            of st1_ex "Suc 0" "Str ''d2''"]
          no_informative_icZ classify_icZ_st1 l canon_recZ record_loop_rec1 s0 n
    unfolding s
    by simp
qed

section \<open>The prior from one record to the next (claim C5)\<close>

lemma drop_indices_Nil: "drop_indices [] xs = xs"
proof -
  have "filter (\<lambda>(k, x). True) (zip [0..<length xs] xs) = zip [0..<length xs] xs"
    by (simp add: case_prod_beta)
  then show ?thesis
    by (simp add: drop_indices_def)
qed

lemma nan_indices_of_none:
  "list_all (\<lambda>c. \<not> isna c) ids \<Longrightarrow> nan_indices_of ids = []"
  by (auto simp: nan_indices_of_def filter_empty_conv list_all_length)

lemma assemble_no_nan:
  assumes "list_all (\<lambda>c. \<not> isna c) (ID_list st)"
      and "list_ex (\<lambda>r. r \<noteq> None) (VA_result st)"
  shows "assemble (E_ex False) st =
           Inr \<lparr>out_ID = ID_list st, out_VA5 = VA_result st,
                out_Malaria = ''h'', out_HIV = ''h''\<rparr>"
proof -
  have "\<not> list_all (\<lambda>r. r = None) (VA_result st)"
    using assms(2) by (auto simp: list_all_iff list_ex_iff)
  then show ?thesis
    by (simp add: assemble_def Let_def nan_indices_of_none [OF assms(1)] drop_indices_Nil
          E_ex_def)
qed

lemma run_cfg_ex_eq:
  assumes "rows \<noteq> []"
      and "record_loop (E_ex w) 0 rows (st0_ex (length rows)) = r"
  shows "run_cfg_ex w rows = (case r of Inl e \<Rightarrow> Inl e | Inr st \<Rightarrow> assemble (E_ex w) st)"
  unfolding run_cfg_ex_def by (simp only: run_ex [OF assms(1)] assms(2))

lemma Sys_Prior_st0_ex: "Sys_Prior (st0_ex N) = replicate 17 0 @ prior_ex"
  by (simp add: st0_ex_def)

lemma record_loop_recZ:
  "record_loop (E_ex False) 0 [recZ] (st0_ex 1) =
     Inr \<lparr>Sys_Prior = replicate 17 0 @ prior_ex, ID_list = [Str ''d2''],
          VA_result = [Some (undetermined_row (E_ex False) (Str ''d2'') prior_ex)]\<rparr>"
  using process_record_recZ [where st = "st0_ex 1" and p = prior_ex and i = 0]
  by (simp add: st0_ex_def)

lemma record_loop_rec1_recZ:
  "record_loop (E_ex False) 0 [rec1, recZ] (st0_ex 2) =
     Inr \<lparr>Sys_Prior = replicate 17 0 @ post_ex, ID_list = [Str ''d1'', Str ''d2''],
          VA_result = [Some (undetermined_row (E_ex False) (Str ''d1'') post_ex),
                       Some (undetermined_row (E_ex False) (Str ''d2'') post_ex)]\<rparr>"
proof -
  let ?st1 = "\<lparr>Sys_Prior = replicate 17 0 @ post_ex, ID_list = [Str ''d1''],
          VA_result = [Some (undetermined_row (E_ex False) (Str ''d1'') post_ex), None]\<rparr>"
  have a: "process_record (E_ex False) 0 rec1 (st0_ex 2) = Inr (Accepted ?st1)"
    using process_record_rec1 [where st = "st0_ex 2" and i = 0]
    by (simp add: st0_ex_def numeral_2_eq_2)
  have b: "process_record (E_ex False) (Suc 0) recZ ?st1 =
             Inr (Accepted \<lparr>Sys_Prior = replicate 17 0 @ post_ex,
                   ID_list = [Str ''d1'', Str ''d2''],
                   VA_result = [Some (undetermined_row (E_ex False) (Str ''d1'') post_ex),
                       Some (undetermined_row (E_ex False) (Str ''d2'') post_ex)]\<rparr>)"
    using process_record_recZ [where st = ?st1 and p = post_ex and i = "Suc 0"]
    by simp
  show ?thesis
    by (simp add: a b)
qed

lemma prior_ex_neq_post_ex: "prior_ex \<noteq> post_ex"
proof
  assume "prior_ex = post_ex"
  then have "prior_ex ! 0 = post_ex ! 0" by simp
  then show False by (simp add: prior_ex_def post_ex_def nth_append)
qed

text \<open>
  C5, what the code does. The claim has every record read the prior that was built before the loop.
  In the code \<open>prob\<close> is a view of \<open>Sys_Prior\<close>, so the updates of one record stay
  in \<open>Sys_Prior\<close>. On the table \<open>sci_ex\<close>: the record \<open>recZ\<close>, which has no
  informative symptom, gets the prior as its combined probabilities when it is
  processed alone, and the posterior of \<open>rec1\<close> when it is processed after \<open>rec1\<close>;
  after \<open>rec1\<close> the vector \<open>Sys_Prior\<close> is no longer the one built before the loop.
\<close>

theorem prior_changes_between_records:
  "run_cfg_ex False [recZ] =
     Inr \<lparr>out_ID = [Str ''d2''],
          out_VA5 = [Some (undetermined_row (E_ex False) (Str ''d2'') prior_ex)],
          out_Malaria = ''h'', out_HIV = ''h''\<rparr>
   \<and> run_cfg_ex False [rec1, recZ] =
     Inr \<lparr>out_ID = [Str ''d1'', Str ''d2''],
          out_VA5 = [Some (undetermined_row (E_ex False) (Str ''d1'') post_ex),
                     Some (undetermined_row (E_ex False) (Str ''d2'') post_ex)],
          out_Malaria = ''h'', out_HIV = ''h''\<rparr>
   \<and> (\<exists>st'. record_loop (E_ex False) 0 [rec1] (st0_ex 1) = Inr st'
         \<and> Sys_Prior st' = replicate 17 0 @ post_ex
         \<and> Sys_Prior st' \<noteq> Sys_Prior (st0_ex 1))
   \<and> prior_ex \<noteq> post_ex"
proof (intro conjI)
  show "run_cfg_ex False [recZ] =
     Inr \<lparr>out_ID = [Str ''d2''],
          out_VA5 = [Some (undetermined_row (E_ex False) (Str ''d2'') prior_ex)],
          out_Malaria = ''h'', out_HIV = ''h''\<rparr>"
  proof -
    have "record_loop (E_ex False) 0 [recZ] (st0_ex (length [recZ])) =
            Inr \<lparr>Sys_Prior = replicate 17 0 @ prior_ex, ID_list = [Str ''d2''],
              VA_result = [Some (undetermined_row (E_ex False) (Str ''d2'') prior_ex)]\<rparr>"
      using record_loop_recZ by simp
    from run_cfg_ex_eq [OF _ this] show ?thesis
      by (simp add: assemble_no_nan isna_def)
  qed
  show "run_cfg_ex False [rec1, recZ] =
     Inr \<lparr>out_ID = [Str ''d1'', Str ''d2''],
          out_VA5 = [Some (undetermined_row (E_ex False) (Str ''d1'') post_ex),
                     Some (undetermined_row (E_ex False) (Str ''d2'') post_ex)],
          out_Malaria = ''h'', out_HIV = ''h''\<rparr>"
  proof -
    have "record_loop (E_ex False) 0 [rec1, recZ] (st0_ex (length [rec1, recZ])) =
            Inr \<lparr>Sys_Prior = replicate 17 0 @ post_ex, ID_list = [Str ''d1'', Str ''d2''],
              VA_result = [Some (undetermined_row (E_ex False) (Str ''d1'') post_ex),
                           Some (undetermined_row (E_ex False) (Str ''d2'') post_ex)]\<rparr>"
      using record_loop_rec1_recZ by (simp add: numeral_2_eq_2)
    from run_cfg_ex_eq [OF _ this] show ?thesis
      by (simp add: assemble_no_nan isna_def)
  qed
  show "\<exists>st'. record_loop (E_ex False) 0 [rec1] (st0_ex 1) = Inr st'
         \<and> Sys_Prior st' = replicate 17 0 @ post_ex
         \<and> Sys_Prior st' \<noteq> Sys_Prior (st0_ex 1)"
    using process_record_rec1 [where st = "st0_ex 1" and i = 0]
          prior_ex_neq_post_ex
    by (simp add: st0_ex_def)
  show "prior_ex \<noteq> post_ex" by (rule prior_ex_neq_post_ex)
qed

section \<open>Records without age, sex or symptoms (claim C8)\<close>

text \<open>
  C8, what the code does. The claim has a record whose age indicators, sex indicators or symptom
  indicators sum to less than 1 skipped without an error, with a reason logged. In
  the code such a record raises \<open>TypeError\<close> when \<open>write\<close> is true (the reason is
  added to \<open>errors\<close>, which is \<open>None\<close>); when \<open>write\<close> is false the record is
  skipped, nothing is recorded for it, and the loop goes on with the next record in
  the same state.
\<close>

theorem excluded_record_step:
  assumes "row \<noteq> []"
      and "nansum (slice 5 12 ((map canon row)[0 := Some 0])) < 1
           \<or> nansum (slice 3 5 ((map canon row)[0 := Some 0])) < 1
           \<or> nansum (slice 20 328 ((map canon row)[0 := Some 0])) < 1"
  shows "process_record E i row st = (if e_write E then Inl TypeError else Inr Excluded)
       \<and> record_loop E i (row # rows) st =
           (if e_write E then Inl TypeError else record_loop E (Suc i) rows st)"
proof -
  have p: "process_record E i row st = (if e_write E then Inl TypeError else Inr Excluded)"
    using assms by (auto simp: process_record_def Let_def)
  then show ?thesis by simp
qed

lemma rec0_sums:
  "rec0 \<noteq> []"
  "nansum (slice 5 12 ((map canon rec0)[0 := Some 0])) = 0"
  "nansum (slice 3 5 ((map canon rec0)[0 := Some 0])) = 0"
  "nansum (slice 20 328 ((map canon rec0)[0 := Some 0])) = 0"
proof -
  have e: "(map canon rec0)[0 := Some 0] = [Some 0] @ replicate 353 None"
    by (simp add: rec0_def)
  show "rec0 \<noteq> []" by (simp add: rec0_def)
  show "nansum (slice 5 12 ((map canon rec0)[0 := Some 0])) = 0"
    unfolding e by (simp add: nansum_def slice_def sum_list_replicate)
  show "nansum (slice 3 5 ((map canon rec0)[0 := Some 0])) = 0"
    unfolding e by (simp add: nansum_def slice_def sum_list_replicate)
  show "nansum (slice 20 328 ((map canon rec0)[0 := Some 0])) = 0"
    unfolding e by (simp add: nansum_def slice_def sum_list_replicate)
qed

text \<open>The record \<open>rec0\<close>, which has no value at all, followed by \<open>recZ\<close>.\<close>

theorem excluded_record_step_witness:
  "rec0 \<noteq> []
   \<and> nansum (slice 5 12 ((map canon rec0)[0 := Some 0])) < 1
   \<and> process_record (E_ex True) 0 rec0 (st0_ex 2) = Inl TypeError
   \<and> record_loop (E_ex True) 0 [rec0, recZ] (st0_ex 2) = Inl TypeError
   \<and> process_record (E_ex False) 0 rec0 (st0_ex 2) = Inr Excluded
   \<and> record_loop (E_ex False) 0 [rec0, recZ] (st0_ex 2)
       = record_loop (E_ex False) (Suc 0) [recZ] (st0_ex 2)"
  using excluded_record_step [of rec0 "E_ex True" 0 "st0_ex 2" "[recZ]"]
        excluded_record_step [of rec0 "E_ex False" 0 "st0_ex 2" "[recZ]"]
        rec0_sums
  by (simp add: E_ex_def)

text \<open>
  The same at the level of \<open>run\<close>: with \<open>write\<close> a run whose first record is
  \<open>rec0\<close> raises; without \<open>write\<close> the row of \<open>rec0\<close> stays in the result, empty,
  and a run on \<open>rec0\<close> alone raises \<open>ValueError\<close>.
\<close>

lemma run_excluded_write:
  "run_cfg_ex True (rec0 # rows) = Inl TypeError"
proof -
  have "record_loop (E_ex True) 0 (rec0 # rows) (st0_ex (length (rec0 # rows)))
          = Inl TypeError"
    by (simp add: process_record_rec0)
  from run_cfg_ex_eq [OF _ this] show ?thesis by simp
qed

lemma run_excluded_row_stays:
  "run_cfg_ex False [rec0, recZ] =
     Inr \<lparr>out_ID = [Str ''d2''],
          out_VA5 = [None, Some (undetermined_row (E_ex False) (Str ''d2'') prior_ex)],
          out_Malaria = ''h'', out_HIV = ''h''\<rparr>"
proof -
  have "process_record (E_ex False) (Suc 0) recZ (st0_ex 2) =
          Inr (Accepted \<lparr>Sys_Prior = replicate 17 0 @ prior_ex, ID_list = [Str ''d2''],
            VA_result = [None, Some (undetermined_row (E_ex False) (Str ''d2'') prior_ex)]\<rparr>)"
    using process_record_recZ [where st = "st0_ex 2" and p = prior_ex
            and i = "Suc 0"]
    by (simp add: st0_ex_def numeral_2_eq_2)
  then have "record_loop (E_ex False) 0 [rec0, recZ] (st0_ex (length [rec0, recZ])) =
          Inr \<lparr>Sys_Prior = replicate 17 0 @ prior_ex, ID_list = [Str ''d2''],
               VA_result = [None, Some (undetermined_row (E_ex False) (Str ''d2'') prior_ex)]\<rparr>"
    by (simp add: process_record_rec0 numeral_2_eq_2)
  from run_cfg_ex_eq [OF _ this] show ?thesis
    by (simp add: assemble_no_nan isna_def)
qed

lemma run_all_excluded:
  "run_cfg_ex False [rec0] = Inl ValueError"
proof -
  have "record_loop (E_ex False) 0 [rec0] (st0_ex (length [rec0])) = Inr (st0_ex (Suc 0))"
    by (simp add: process_record_rec0)
  moreover have "assemble (E_ex False) (st0_ex (Suc 0)) = Inl ValueError"
    by (simp add: assemble_def E_ex_def st0_ex_def Let_def)
  ultimately show ?thesis
    using run_cfg_ex_eq [of "[rec0]" False "Inr (st0_ex (Suc 0))"] by simp
qed

section \<open>The rows stored before, and the output file\<close>

text \<open>
  The rows share the buffer of \<open>Sys_Prior\<close>. On the records \<open>recZ\<close>, \<open>rec1\<close> in
  this order the row of \<open>recZ\<close> is stored with the prior, and holds the posterior
  of \<open>rec1\<close> in the result.
\<close>

lemma earlier_row_changes:
  "run_cfg_ex False [recZ, rec1] =
     Inr \<lparr>out_ID = [Str ''d2'', Str ''d1''],
          out_VA5 = [Some (undetermined_row (E_ex False) (Str ''d2'') post_ex),
                     Some (undetermined_row (E_ex False) (Str ''d1'') post_ex)],
          out_Malaria = ''h'', out_HIV = ''h''\<rparr>"
proof -
  let ?stZ = "\<lparr>Sys_Prior = replicate 17 0 @ prior_ex, ID_list = [Str ''d2''],
          VA_result = [Some (undetermined_row (E_ex False) (Str ''d2'') prior_ex), None]\<rparr>"
  have a: "process_record (E_ex False) 0 recZ (st0_ex 2) = Inr (Accepted ?stZ)"
    using process_record_recZ [where st = "st0_ex 2" and p = prior_ex and i = 0]
    by (simp add: st0_ex_def numeral_2_eq_2)
  have b: "process_record (E_ex False) (Suc 0) rec1 ?stZ =
             Inr (Accepted \<lparr>Sys_Prior = replicate 17 0 @ post_ex,
                   ID_list = [Str ''d2'', Str ''d1''],
                   VA_result = [Some (undetermined_row (E_ex False) (Str ''d2'') post_ex),
                       Some (undetermined_row (E_ex False) (Str ''d1'') post_ex)]\<rparr>)"
    using process_record_rec1 [where st = ?stZ and i = "Suc 0"]
    by simp
  have "record_loop (E_ex False) 0 [recZ, rec1] (st0_ex (length [recZ, rec1])) =
          Inr \<lparr>Sys_Prior = replicate 17 0 @ post_ex, ID_list = [Str ''d2'', Str ''d1''],
            VA_result = [Some (undetermined_row (E_ex False) (Str ''d2'') post_ex),
                         Some (undetermined_row (E_ex False) (Str ''d1'') post_ex)]\<rparr>"
    using a b by (simp add: numeral_2_eq_2)
  from run_cfg_ex_eq [OF _ this] show ?thesis
    by (simp add: assemble_no_nan isna_def)
qed

text \<open>
  With \<open>write\<close> and the output \<open>"classic"\<close> the first record that is classified
  raises in \<open>save_va5\<close>.
\<close>

lemma classify_undetermined_write:
  assumes "e_S E \<le> length checked"
      and "infer (e_probbaseV5 E) (e_D E)
             (new_input_of checked (subst_vector (e_probbaseV5 E)) (e_S E))
             (length checked) (slice 17 (e_D E) (Sys_Prior st)) = Inr prob"
      and "\<not> reproductiveAge_of (post_subst checked)"
      and "slice 0 3 prob \<noteq> []"
      and "slice 3 64 prob \<noteq> []" and "amax (slice 3 64 prob) < 0.4"
      and "slice 64 70 prob \<noteq> []" and "amax (slice 64 70 prob) < 0.5"
      and "e_write E = True" and "e_output E = ''classic''"
  shows "classify E i index_current checked st = Inl ValueError"
  using assms
  by (simp add: classify_def Let_def preg_state_lik_not_reproductive top3_causes_blank
        comcat_comnum_multiple save_va5_def)

lemma run_accepted_write:
  "run_cfg_ex True (recZ # rows) = Inl ValueError"
proof -
  let ?st = "st0_ex (length (recZ # rows))"
  have inf: "infer (e_probbaseV5 (E_ex True)) (e_D (E_ex True))
             (new_input_of icZ (subst_vector (e_probbaseV5 (E_ex True))) (e_S (E_ex True)))
             (length icZ) (slice 17 (e_D (E_ex True)) (Sys_Prior ?st)) = Inr prior_ex"
    by (simp add: E_ex_def new_input_of_icZ infer_def temp_of_zero st0_ex_def slice_def)
  have c: "classify (E_ex True) 0 (Str ''d2'') icZ ?st = Inl ValueError"
    by (rule classify_undetermined_write [OF _ inf not_reproductive_icZ])
       (simp_all add: E_ex_def slices_prior_ex amax_replicate)
  have a: "recZ \<noteq> []" "recZ ! 0 = Str ''d2''" by (simp_all add: recZ_def)
  have d: "e_datacheck5 (E_ex True) = (\<lambda>index_current input_current. input_current)"
    by (simp add: E_ex_def)
  have "process_record (E_ex True) 0 recZ ?st = Inl ValueError"
    unfolding process_record_def Let_def canon_recZ
    using c by (simp add: a d nansum_icZ)
  then have "record_loop (E_ex True) 0 (recZ # rows) ?st = Inl ValueError"
    by simp
  from run_cfg_ex_eq [OF _ this] show ?thesis by simp
qed

end
